theory Spec2Isabelle
  imports Main "HOL-Library.Word"
begin

unbundle bit_operations_syntax

section \<open>Wire messages and machine types\<close>

text \<open>
  The three programs (\<^verbatim>\<open>client.go\<close>, \<^verbatim>\<open>auth-server.go\<close> and the fortune server
  that follows the client in the same source file) exchange JSON encodings of small
  structs over UDP. Go's \<^verbatim>\<open>int64\<close> is a 64-bit word whose addition wraps; a byte is an
  8-bit word; a Go string is modelled as a \<^typ>\<open>string\<close>.
\<close>

type_synonym byte = "8 word"
type_synonym int64 = "64 word"
type_synonym uint64 = "64 word"

record ErrMessage =
  Error :: string

record NonceMessage =
  Nonce :: int64

record HashMessage =
  Hash :: string

record FortuneInfoMessage =
  FortuneServer :: string
  FortuneNonce :: int64

text \<open>The request struct has a field \<^verbatim>\<open>FortuneNonce\<close> too; its selector is suffixed.\<close>

record FortuneReqMessage =
  FortuneNonce_req :: int64

record FortuneMessage =
  Fortune :: string

text \<open>
  What a handler does to the outside world, in order. A datagram written with
  \<^verbatim>\<open>conn.WriteToUDP(json.Marshal(v), cAddr)\<close> is recorded as the struct \<open>v\<close> and the
  destination; \<^verbatim>\<open>rpcClient.Call(method, arg, &reply)\<close> is recorded with its argument.
\<close>

datatype reply =
    NonceReply NonceMessage
  | ErrReply ErrMessage
  | FortuneInfoReply FortuneInfoMessage
  | FortuneReply FortuneMessage

datatype effect =
    WriteToUDP reply string
  | RPCCall string string

text \<open>A run-time panic of the Go program: the goroutine, and with it the process, stops.\<close>

datatype panic = IndexOutOfRange

section \<open>The standard library the programs call\<close>

text \<open>
  \<^verbatim>\<open>encoding/json\<close>, \<^verbatim>\<open>crypto/md5\<close> and \<^verbatim>\<open>math/rand\<close> are not code of this repository.
  The handlers take them as a parameter, so every theorem below holds for whatever these
  functions compute.
  \<^item> \<open>json_Unmarshal_HashMessage msg\<close> is \<^verbatim>\<open>json.Unmarshal(msg, &hash)\<close> for a zero
    \<^verbatim>\<open>HashMessage\<close>: \<open>None\<close> when it returns an error, otherwise the decoded struct;
    likewise for \<^verbatim>\<open>FortuneReqMessage\<close>.
  \<^item> \<open>md5_Sum\<close> is \<^verbatim>\<open>md5.Sum\<close>, the digest as its bytes in order.
  \<^item> \<open>rand_Seed seed\<close> is the state of the process-wide source after
    \<^verbatim>\<open>rand.Seed(seed)\<close>, which puts the source into a state that depends on the seed
    alone; \<open>rand_Uint64\<close> draws the next 64 bits and steps the source. This is
    \<^verbatim>\<open>rand.Seed\<close> as the programs call it, a function that seeds; a Go runtime that is
    configured to ignore the call (the default from Go 1.24 on) is not modelled.
\<close>

record 'g stdlib =
  json_Unmarshal_HashMessage :: "byte list \<Rightarrow> HashMessage option"
  json_Unmarshal_FortuneReqMessage :: "byte list \<Rightarrow> FortuneReqMessage option"
  md5_Sum :: "byte list \<Rightarrow> byte list"
  rand_Seed :: "int64 \<Rightarrow> 'g"
  rand_Uint64 :: "'g \<Rightarrow> uint64 \<times> 'g"

text \<open>
  \<^verbatim>\<open>rand.Int63()\<close> returns the source's 64 bits with the top bit masked off
  (\<^verbatim>\<open>int64(rng.Uint64() & rngMask)\<close>, \<^verbatim>\<open>rngMask = (1 << 63) - 1\<close>).
\<close>

definition rngMask :: uint64 where
  "rngMask = push_bit 63 1 - 1"

definition rand_Int63 :: "'g stdlib \<Rightarrow> 'g \<Rightarrow> int64 \<times> 'g" where
  "rand_Int63 lib g = (case rand_Uint64 lib g of (u, g') \<Rightarrow> (u AND rngMask, g'))"

subsection \<open>encoding/binary: PutVarint\<close>

text \<open>
  \<^verbatim>\<open>
  func PutUvarint(buf []byte, x uint64) int {
      i := 0
      for x >= 0x80 {
          buf[i] = byte(x) | 0x80
          x >>= 7
          i++
      }
      buf[i] = byte(x)
      return i + 1
  }
  func PutVarint(buf []byte, x int64) int {
      ux := uint64(x) << 1
      if x < 0 {
          ux = ^ux
      }
      return PutUvarint(buf, ux)
  }
  \<close>
  The functions write into the caller's buffer and return the number of bytes written.
  An index at or beyond \<^verbatim>\<open>len(buf)\<close> panics; the model returns the buffer as written
  together with the count.
\<close>

function PutUvarint_loop :: "byte list \<Rightarrow> nat \<Rightarrow> uint64 \<Rightarrow> panic + (byte list \<times> nat)" where
  "PutUvarint_loop buf i x =
     (if 0x80 \<le> x then
        (if i < length buf
         then PutUvarint_loop (buf[i := ucast x OR 0x80]) (i + 1) (drop_bit 7 x)
         else Inl IndexOutOfRange)
      else
        (if i < length buf then Inr (buf[i := ucast x], i + 1) else Inl IndexOutOfRange))"
  by pat_completeness auto
termination
proof (relation "measure (\<lambda>(buf, i, x). unat x)")
  show "wf (measure (\<lambda>(buf :: byte list, i :: nat, x :: uint64). unat x))"
    by simp
next
  fix buf :: "byte list" and i :: nat and x :: uint64
  assume big: "0x80 \<le> x"
  then have "128 \<le> unat x"
    by (simp add: word_le_nat_alt)
  then have "unat x div 2 ^ 7 < unat x"
    by simp
  then show "((buf[i := ucast x OR 0x80], i + 1, drop_bit 7 x), (buf, i, x))
      \<in> measure (\<lambda>(buf, i, x). unat x)"
    by (simp add: drop_bit_eq_div unat_div)
qed

definition PutUvarint :: "byte list \<Rightarrow> uint64 \<Rightarrow> panic + (byte list \<times> nat)" where
  "PutUvarint buf x = PutUvarint_loop buf 0 x"

definition PutVarint :: "byte list \<Rightarrow> int64 \<Rightarrow> panic + (byte list \<times> nat)" where
  "PutVarint buf x =
     (let ux = push_bit 1 x;
          ux = (if sint x < 0 then NOT ux else ux)
      in PutUvarint buf ux)"

subsection \<open>encoding/hex: EncodeToString\<close>

text \<open>Two digits per byte, high nibble first, from the table \<^verbatim>\<open>"0123456789abcdef"\<close>.\<close>

definition hextable :: string where
  "hextable = ''0123456789abcdef''"

definition EncodeToString :: "byte list \<Rightarrow> string" where
  "EncodeToString src =
     concat (map (\<lambda>v. [hextable ! unat (drop_bit 4 v), hextable ! unat (v AND 0x0f)]) src)"

section \<open>The fortune server\<close>

text \<open>
  \<^verbatim>\<open>FortuneServerRPC\<close> holds the nonce map \<^verbatim>\<open>m\<close> and the server's own UDP address
  \<^verbatim>\<open>server\<close>; the mutex only serialises access to the map. The process-wide random source
  is part of the process state. Handlers are modelled one at a time: each runs to its
  end before the next starts.
\<close>

record 'g fserver =
  fortune_m :: "string \<rightharpoonup> int64"
  server :: string
  fserver_rand :: 'g

text \<open>
  \<^verbatim>\<open>main\<close> creates the server with an empty map and its own UDP address (the second
  command-line argument). Until a program seeds it, the source of \<^verbatim>\<open>math/rand\<close> is in the
  state of \<^verbatim>\<open>Seed(1)\<close>.
\<close>

definition fserver_start :: "'g stdlib \<Rightarrow> string \<Rightarrow> 'g fserver" where
  "fserver_start lib fserverUDP =
     \<lparr>fortune_m = Map.empty, server = fserverUDP, fserver_rand = rand_Seed lib 1\<rparr>"

text \<open>
  \<^verbatim>\<open>GetFortuneInfo(clientAddr, fInfoMsg) error\<close>: the returned error (\<open>None\<close> is
  \<^verbatim>\<open>nil\<close>), the filled-in reply, and the server's state afterwards.
\<close>

definition GetFortuneInfo ::
  "'g stdlib \<Rightarrow> string \<Rightarrow> 'g fserver \<Rightarrow> string option \<times> FortuneInfoMessage \<times> 'g fserver" where
  "GetFortuneInfo lib clientAddr this =
     (let g = rand_Seed lib 110;
          (newNonce, g') = rand_Int63 lib g;
          this' = this\<lparr>fortune_m := (fortune_m this)(clientAddr \<mapsto> newNonce),
                       fserver_rand := g'\<rparr>;
          fInfoMsg = \<lparr>FortuneServer = server this, FortuneNonce = newNonce\<rparr>
      in (None, fInfoMsg, this'))"

text \<open>\<^verbatim>\<open>fortune(conn, msg, fortuneServerRPC, fortuneString, cAddr)\<close>; it only reads the map.\<close>

definition fortune ::
  "'g stdlib \<Rightarrow> byte list \<Rightarrow> 'g fserver \<Rightarrow> string \<Rightarrow> string \<Rightarrow> effect list" where
  "fortune lib msg fortuneServerRPC fortuneString cAddr =
     (case json_Unmarshal_FortuneReqMessage lib msg of
        None \<Rightarrow>
          [WriteToUDP (ErrReply \<lparr>Error = ''could not interpret message''\<rparr>) cAddr]
      | Some fortuneReq \<Rightarrow>
          (case fortune_m fortuneServerRPC cAddr of
             None \<Rightarrow>
               [WriteToUDP (ErrReply \<lparr>Error = ''unknown remote client address''\<rparr>) cAddr]
           | Some validNonce \<Rightarrow>
               if FortuneNonce_req fortuneReq \<noteq> validNonce
               then [WriteToUDP (ErrReply \<lparr>Error = ''incorrect fortune nonce''\<rparr>) cAddr]
               else [WriteToUDP (FortuneReply \<lparr>Fortune = fortuneString\<rparr>) cAddr]))"

section \<open>The authorization server\<close>

text \<open>
  \<^verbatim>\<open>ClientRecords\<close> holds the nonce assigned to each client address; \<^verbatim>\<open>main\<close> starts
  with \<^verbatim>\<open>ClientRecords{m: make(map[string]int64)}\<close>.
\<close>

record 'g aserver =
  records_m :: "string \<rightharpoonup> int64"
  aserver_rand :: 'g

definition aserver_start :: "'g stdlib \<Rightarrow> 'g aserver" where
  "aserver_start lib = \<lparr>records_m = Map.empty, aserver_rand = rand_Seed lib 1\<rparr>"

text \<open>
  How the RPC connection to the fortune server behaves for one call: the call completes
  (the method runs and its reply arrives), the request never leaves (the connection is
  shut down; the method does not run), or the method runs and its reply is lost.
  \<^verbatim>\<open>Call\<close> returns a nil error in the first case only, and then only if the method
  returned none.
\<close>

datatype rpc_Client = CallCompletes | CallNotSent | CallReplyLost

definition rpc_Call ::
  "'g stdlib \<Rightarrow> rpc_Client \<Rightarrow> string \<Rightarrow> 'g fserver \<Rightarrow> FortuneInfoMessage option \<times> 'g fserver" where
  "rpc_Call lib rpcClient arg fs =
     (case rpcClient of
        CallNotSent \<Rightarrow> (None, fs)
      | CallReplyLost \<Rightarrow>
          (case GetFortuneInfo lib arg fs of (err, fInfoMsg, fs') \<Rightarrow> (None, fs'))
      | CallCompletes \<Rightarrow>
          (case GetFortuneInfo lib arg fs of
             (None, fInfoMsg, fs') \<Rightarrow> (Some fInfoMsg, fs')
           | (Some e, fInfoMsg, fs') \<Rightarrow> (None, fs')))"

text \<open>
  \<^verbatim>\<open>handleRequest(conn, msg, record, rpcClient, secret, cAddr)\<close>. \<open>msg\<close> is the slice
  \<^verbatim>\<open>msg[0:n]\<close> of the received datagram, so \<^verbatim>\<open>binary.PutVarint(msg, value)\<close> writes into
  a buffer exactly as long as the datagram. \<open>cAddr\<close> is \<^verbatim>\<open>cAddr.String()\<close>. The fortune
  server's state is threaded through because the RPC runs there.
\<close>

definition handleRequest ::
  "'g stdlib \<Rightarrow> byte list \<Rightarrow> 'g aserver \<Rightarrow> rpc_Client \<Rightarrow> 'g fserver \<Rightarrow> int64 \<Rightarrow> string
     \<Rightarrow> panic + (effect list \<times> 'g aserver \<times> 'g fserver)" where
  "handleRequest lib msg record rpcClient fs secret cAddr =
     (case json_Unmarshal_HashMessage lib msg of
        None \<Rightarrow>
          (let g = rand_Seed lib 222;
               (newNonce, g') = rand_Int63 lib g;
               record' = record\<lparr>records_m := (records_m record)(cAddr \<mapsto> newNonce),
                                aserver_rand := g'\<rparr>
           in Inr ([WriteToUDP (NonceReply \<lparr>Nonce = newNonce\<rparr>) cAddr], record', fs))
      | Some hash \<Rightarrow>
          (case records_m record cAddr of
             None \<Rightarrow>
               Inr ([WriteToUDP (ErrReply \<lparr>Error = ''unknown remote client address''\<rparr>) cAddr],
                    record, fs)
           | Some validNonce \<Rightarrow>
               (let value = validNonce + secret in
                case PutVarint msg value of
                  Inl p \<Rightarrow> Inl p
                | Inr (msg', n) \<Rightarrow>
                    (let hashmd5 = md5_Sum lib (take n msg');
                         hashStr = EncodeToString hashmd5
                     in if hashStr = Hash hash then
                          (case rpc_Call lib rpcClient cAddr fs of
                             (Some fInfoMsg, fs') \<Rightarrow>
                               Inr ([RPCCall ''FortuneServerRPC.GetFortuneInfo'' cAddr,
                                     WriteToUDP (FortuneInfoReply fInfoMsg) cAddr], record, fs')
                           | (None, fs') \<Rightarrow>
                               Inr ([RPCCall ''FortuneServerRPC.GetFortuneInfo'' cAddr],
                                    record, fs'))
                        else
                          Inr ([WriteToUDP (ErrReply \<lparr>Error = ''unexpected hash value''\<rparr>) cAddr],
                               record, fs)))))"

text \<open>
  The receive loop of \<^verbatim>\<open>main\<close> with the handlers run in the order of arrival: each
  datagram comes with its sender and with the behaviour of the RPC connection at that
  moment. A panic ends the process.
\<close>

fun serve ::
  "'g stdlib \<Rightarrow> int64 \<Rightarrow> (byte list \<times> string \<times> rpc_Client) list \<Rightarrow> 'g aserver \<Rightarrow> 'g fserver
     \<Rightarrow> panic + (effect list \<times> 'g aserver \<times> 'g fserver)" where
  "serve lib secret [] record fs = Inr ([], record, fs)"
| "serve lib secret ((msg, cAddr, rpcClient) # rest) record fs =
     (case handleRequest lib msg record rpcClient fs secret cAddr of
        Inl p \<Rightarrow> Inl p
      | Inr (out, record', fs') \<Rightarrow>
          (case serve lib secret rest record' fs' of
             Inl p \<Rightarrow> Inl p
           | Inr (out', record'', fs'') \<Rightarrow> Inr (out @ out', record'', fs'')))"

section \<open>The client\<close>

text \<open>
  The client computes its answer to the challenge in \<^verbatim>\<open>main\<close>:
  \<^verbatim>\<open>
  value := nonce.Nonce + secret
  n = binary.PutVarint(msg, value)
  hash := md5.Sum(msg[:n])
  hashStr := hex.EncodeToString(hash[:])
  hashMsg.Hash = hashStr
  \<close>
  \<open>msg\<close> is the client's buffer, made with \<^verbatim>\<open>make([]byte, 1024)\<close> and holding whatever was
  read into it before.
\<close>

definition client_hashMsg ::
  "'g stdlib \<Rightarrow> byte list \<Rightarrow> NonceMessage \<Rightarrow> int64 \<Rightarrow> panic + HashMessage" where
  "client_hashMsg lib msg nonce secret =
     (let value = Nonce nonce + secret in
      case PutVarint msg value of
        Inl p \<Rightarrow> Inl p
      | Inr (msg', n) \<Rightarrow>
          (let hash = md5_Sum lib (take n msg');
               hashStr = EncodeToString hash
           in Inr \<lparr>Hash = hashStr\<rparr>))"

text \<open>
  The probe the client sends first: its zeroed 1024-byte buffer with \<^verbatim>\<open>msg[2] = byte(2)\<close>.
\<close>

definition client_probe :: "byte list" where
  "client_probe = (replicate 1024 0)[2 := 2]"

section \<open>The variable-length integer encoding, as a function\<close>

text \<open>
  The bytes of an unsigned varint, least significant group of seven bits first, every byte
  but the last with its top bit set; a signed value is mapped to an unsigned one with the
  sign in the lowest bit. These are the bytes \<open>PutVarint\<close> is compared with below.
\<close>

function uvarint :: "uint64 \<Rightarrow> byte list" where
  "uvarint x = (if 0x80 \<le> x then (ucast x OR 0x80) # uvarint (drop_bit 7 x) else [ucast x])"
  by pat_completeness auto
termination
proof (relation "measure unat")
  show "wf (measure (unat :: uint64 \<Rightarrow> nat))"
    by simp
next
  fix x :: uint64
  assume "0x80 \<le> x"
  then have "128 \<le> unat x"
    by (simp add: word_le_nat_alt)
  then have "unat x div 2 ^ 7 < unat x"
    by simp
  then show "(drop_bit 7 x, x) \<in> measure unat"
    by (simp add: drop_bit_eq_div unat_div)
qed

definition zigzag :: "int64 \<Rightarrow> uint64" where
  "zigzag x = (if sint x < 0 then NOT (push_bit 1 x) else push_bit 1 x)"

definition varint :: "int64 \<Rightarrow> byte list" where
  "varint x = uvarint (zigzag x)"

section \<open>A library instance for concrete runs\<close>

text \<open>
  To run the model on concrete datagrams the library parameter needs a value. The decoders
  of this instance accept \<^verbatim>\<open>{}\<close> and the one-field objects \<^verbatim>\<open>{"Hash":"s"}\<close> (\<open>s\<close> of
  printable ASCII characters other than quote and backslash) and
  \<^verbatim>\<open>{"FortuneNonce":d}\<close> (\<open>d\<close> an unsigned decimal of at most 18 digits without a leading
  zero), written without white space; on these they return what \<^verbatim>\<open>json.Unmarshal\<close>
  returns. They reject everything else, and are used below only on such datagrams and on
  the client's probe, which starts with a zero byte and is not JSON. The digest and the
  generator are arbitrary functions of the right shape. The theorems about the handlers
  are proved for every library, not for this one.
\<close>

definition chars_of :: "byte list \<Rightarrow> string" where
  "chars_of bs = map (\<lambda>b. char_of (unat b)) bs"

definition bytes_of :: "string \<Rightarrow> byte list" where
  "bytes_of s = map of_char s"

definition plain_char :: "char \<Rightarrow> bool" where
  "plain_char c = ((32::nat) \<le> of_char c \<and> (of_char c :: nat) < 127
      \<and> c \<noteq> CHR 0x22 \<and> c \<noteq> CHR 0x5C)"

definition digit_char :: "char \<Rightarrow> bool" where
  "digit_char c = ((48::nat) \<le> of_char c \<and> (of_char c :: nat) \<le> 57)"

definition decimal :: "string \<Rightarrow> int64" where
  "decimal ds = foldl (\<lambda>acc c. 10 * acc + (of_char c - 48)) 0 ds"

definition sample_Unmarshal_HashMessage :: "byte list \<Rightarrow> HashMessage option" where
  "sample_Unmarshal_HashMessage msg =
     (let s = chars_of msg; body = take (length s - 11) (drop 9 s) in
      if s = ''{}'' then Some \<lparr>Hash = ''''\<rparr>
      else if 11 \<le> length s \<and> take 9 s = ''{\"Hash\":\"''
              \<and> drop (length s - 2) s = ''\"}'' \<and> list_all plain_char body
      then Some \<lparr>Hash = body\<rparr>
      else None)"

definition sample_Unmarshal_FortuneReqMessage :: "byte list \<Rightarrow> FortuneReqMessage option" where
  "sample_Unmarshal_FortuneReqMessage msg =
     (let s = chars_of msg; ds = take (length s - 17) (drop 16 s) in
      if s = ''{}'' then Some \<lparr>FortuneNonce_req = 0\<rparr>
      else if 18 \<le> length s \<and> take 16 s = ''{\"FortuneNonce\":''
              \<and> drop (length s - 1) s = ''}'' \<and> list_all digit_char ds
              \<and> (ds = ''0'' \<or> hd ds \<noteq> CHR ''0'') \<and> length ds \<le> 18
      then Some \<lparr>FortuneNonce_req = decimal ds\<rparr>
      else None)"

definition sample_Sum :: "byte list \<Rightarrow> byte list" where
  "sample_Sum data =
     map (\<lambda>k. fold (\<lambda>b h. 33 * h + b) data k)
       [1, 2, 3, 4, 5, 6, 7, 8, 9, 10, 11, 12, 13, 14, 15, 16]"

definition sample_Uint64 :: "uint64 \<Rightarrow> uint64 \<times> uint64" where
  "sample_Uint64 g =
     (let g' = 6364136223846793005 * g + 1442695040888963407 in (g', g'))"

definition sample_stdlib :: "uint64 stdlib" where
  "sample_stdlib =
     \<lparr>json_Unmarshal_HashMessage = sample_Unmarshal_HashMessage,
      json_Unmarshal_FortuneReqMessage = sample_Unmarshal_FortuneReqMessage,
      md5_Sum = sample_Sum,
      rand_Seed = (\<lambda>seed. seed),
      rand_Uint64 = sample_Uint64\<rparr>"

section \<open>The varint encoder writes the encoding, or panics on a short buffer\<close>

declare uvarint.simps [simp del]
declare PutUvarint_loop.simps [simp del]

lemma uvarint_nonempty: "0 < length (uvarint x)"
  by (subst uvarint.simps) simp

lemma PutUvarint_loop_fits:
  "i + length (uvarint x) \<le> length buf \<Longrightarrow>
   PutUvarint_loop buf i x =
     Inr (take i buf @ uvarint x @ drop (i + length (uvarint x)) buf, i + length (uvarint x))"
proof (induction buf i x rule: PutUvarint_loop.induct)
  case (1 buf i x)
  show ?case
  proof (cases "0x80 \<le> x")
    case True
    then have enc: "uvarint x = (ucast x OR 0x80) # uvarint (drop_bit 7 x)"
      by (subst uvarint.simps) simp
    with "1.prems" have fit: "i < length buf"
      and fit': "(i + 1) + length (uvarint (drop_bit 7 x)) \<le> length (buf[i := ucast x OR 0x80])"
      by simp_all
    have "PutUvarint_loop buf i x =
        PutUvarint_loop (buf[i := ucast x OR 0x80]) (i + 1) (drop_bit 7 x)"
      using True fit by (subst PutUvarint_loop.simps) simp
    also have "\<dots> = Inr (take (i + 1) (buf[i := ucast x OR 0x80]) @ uvarint (drop_bit 7 x)
          @ drop (i + 1 + length (uvarint (drop_bit 7 x))) (buf[i := ucast x OR 0x80]),
        i + 1 + length (uvarint (drop_bit 7 x)))"
      using "1.IH" [OF True fit fit'] .
    finally show ?thesis
      using fit by (simp add: enc take_Suc_conv_app_nth)
  next
    case False
    then have enc: "uvarint x = [ucast x]"
      by (subst uvarint.simps) simp
    with "1.prems" have fit: "i < length buf"
      by simp
    show ?thesis
      using False fit
      by (subst PutUvarint_loop.simps) (simp add: enc upd_conv_take_nth_drop)
  qed
qed

lemma PutUvarint_loop_short:
  "length buf < i + length (uvarint x) \<Longrightarrow> PutUvarint_loop buf i x = Inl IndexOutOfRange"
proof (induction buf i x rule: PutUvarint_loop.induct)
  case (1 buf i x)
  show ?case
  proof (cases "0x80 \<le> x")
    case True
    then have enc: "uvarint x = (ucast x OR 0x80) # uvarint (drop_bit 7 x)"
      by (subst uvarint.simps) simp
    show ?thesis
    proof (cases "i < length buf")
      case fit: True
      from "1.prems" enc
      have "length (buf[i := ucast x OR 0x80]) < (i + 1) + length (uvarint (drop_bit 7 x))"
        by simp
      from "1.IH" [OF True fit this] True fit show ?thesis
        by (subst PutUvarint_loop.simps) simp
    next
      case False
      with True show ?thesis
        by (subst PutUvarint_loop.simps) simp
    qed
  next
    case False
    then have enc: "uvarint x = [ucast x]"
      by (subst uvarint.simps) simp
    with "1.prems" have "\<not> i < length buf"
      by simp
    with False show ?thesis
      by (subst PutUvarint_loop.simps) simp
  qed
qed

lemma uvarint_length_bound:
  "unat x < 2 ^ (7 * Suc k) \<Longrightarrow> length (uvarint x) \<le> Suc k"
proof (induction k arbitrary: x)
  case 0
  then have "\<not> 0x80 \<le> x"
    by (simp add: word_le_nat_alt)
  then show ?case
    by (subst uvarint.simps) simp
next
  case (Suc k)
  show ?case
  proof (cases "0x80 \<le> x")
    case True
    have "unat (drop_bit 7 x) = unat x div 2 ^ 7"
      by (simp add: drop_bit_eq_div unat_div)
    also from Suc.prems have "\<dots> < 2 ^ (7 * Suc k)"
      by (simp add: less_mult_imp_div_less power_add)
    finally have "length (uvarint (drop_bit 7 x)) \<le> Suc k"
      by (rule Suc.IH)
    with True show ?thesis
      by (subst uvarint.simps) simp
  next
    case False
    then show ?thesis
      by (subst uvarint.simps) simp
  qed
qed

lemma uvarint_length_le_10: "length (uvarint x) \<le> 10"
proof -
  have "unat x < 2 ^ 64"
    using unsigned_less [of x] by simp
  also have "(2::nat) ^ 64 \<le> 2 ^ (7 * Suc 9)"
    by simp
  finally have "length (uvarint x) \<le> Suc 9"
    by (rule uvarint_length_bound)
  then show ?thesis
    by simp
qed

lemma PutVarint_zigzag: "PutVarint buf x = PutUvarint_loop buf 0 (zigzag x)"
  by (simp add: PutVarint_def PutUvarint_def zigzag_def Let_def)

lemma PutVarint_fits:
  "length (varint x) \<le> length buf \<Longrightarrow>
   PutVarint buf x = Inr (varint x @ drop (length (varint x)) buf, length (varint x))"
  using PutUvarint_loop_fits [of 0 "zigzag x" buf]
  by (simp add: PutVarint_zigzag varint_def)

lemma PutVarint_short:
  "length buf < length (varint x) \<Longrightarrow> PutVarint buf x = Inl IndexOutOfRange"
  using PutUvarint_loop_short [of buf 0 "zigzag x"]
  by (simp add: PutVarint_zigzag varint_def)

lemma varint_length_le_10: "length (varint x) \<le> 10"
  by (simp add: varint_def uvarint_length_le_10)

section \<open>The generator's draw is a 63-bit value\<close>

lemma rngMask_mask: "rngMask = mask 63"
  by (simp add: rngMask_def mask_eq_exp_minus_1)

lemma Int63_range: "(u :: uint64) AND rngMask < 2 ^ 63"
  unfolding rngMask_mask by (rule and_mask_less') simp

lemma Int63_nonneg: "0 \<le> sint ((u :: uint64) AND rngMask)"
proof -
  have "\<not> bit (u AND rngMask) 63"
    unfolding rngMask_mask by (simp add: bit_simps)
  then have "\<not> sint (u AND rngMask) < 0"
    using bit_last_iff [of "u AND rngMask"] by simp
  then show ?thesis
    by simp
qed

section \<open>The hash string is lowercase hexadecimal\<close>

lemma hextable_nth_mem: "n < 16 \<Longrightarrow> hextable ! n \<in> set hextable"
  by (rule nth_mem) (simp add: hextable_def)

lemma high_nibble_less: "unat (drop_bit 4 (v :: byte)) < 16"
proof -
  have "unat v < 2 ^ 8"
    using unsigned_less [of v] by simp
  then show ?thesis
    by (simp add: drop_bit_eq_div unat_div)
qed

lemma low_nibble_less: "unat ((v :: byte) AND 0x0f) < 16"
proof -
  have "v AND 0x0f \<le> 0x0f"
    by (rule word_and_le1)
  then have "unat (v AND 0x0f) \<le> 15"
    by (simp add: word_le_nat_alt)
  then show ?thesis
    by simp
qed

lemma EncodeToString_lowercase_hex: "set (EncodeToString src) \<subseteq> set hextable"
  by (auto simp: EncodeToString_def high_nibble_less low_nibble_less intro: hextable_nth_mem)

lemma EncodeToString_length: "length (EncodeToString src) = 2 * length src"
  by (induction src) (simp_all add: EncodeToString_def)

section \<open>handleRequest, branch by branch\<close>

lemma handleRequest_probe:
  "json_Unmarshal_HashMessage lib msg = None \<Longrightarrow>
   handleRequest lib msg record rpcClient fs secret cAddr =
     Inr ([WriteToUDP (NonceReply \<lparr>Nonce = fst (rand_Int63 lib (rand_Seed lib 222))\<rparr>) cAddr],
          record\<lparr>records_m := (records_m record)(cAddr \<mapsto> fst (rand_Int63 lib (rand_Seed lib 222))),
                 aserver_rand := snd (rand_Int63 lib (rand_Seed lib 222))\<rparr>,
          fs)"
  by (simp add: handleRequest_def Let_def split: prod.splits)

lemma handleRequest_unknown:
  "json_Unmarshal_HashMessage lib msg = Some h \<Longrightarrow> records_m record cAddr = None \<Longrightarrow>
   handleRequest lib msg record rpcClient fs secret cAddr =
     Inr ([WriteToUDP (ErrReply \<lparr>Error = ''unknown remote client address''\<rparr>) cAddr], record, fs)"
  by (simp add: handleRequest_def)

lemma handleRequest_checked:
  "json_Unmarshal_HashMessage lib msg = Some h \<Longrightarrow> records_m record cAddr = Some validNonce \<Longrightarrow>
   length (varint (validNonce + secret)) \<le> length msg \<Longrightarrow>
   handleRequest lib msg record rpcClient fs secret cAddr =
     (if EncodeToString (md5_Sum lib (varint (validNonce + secret))) = Hash h then
        (case rpc_Call lib rpcClient cAddr fs of
           (Some fInfoMsg, fs') \<Rightarrow>
             Inr ([RPCCall ''FortuneServerRPC.GetFortuneInfo'' cAddr,
                   WriteToUDP (FortuneInfoReply fInfoMsg) cAddr], record, fs')
         | (None, fs') \<Rightarrow>
             Inr ([RPCCall ''FortuneServerRPC.GetFortuneInfo'' cAddr], record, fs'))
      else Inr ([WriteToUDP (ErrReply \<lparr>Error = ''unexpected hash value''\<rparr>) cAddr], record, fs))"
  by (simp add: handleRequest_def Let_def PutVarint_fits)

lemma handleRequest_short_buffer:
  "json_Unmarshal_HashMessage lib msg = Some h \<Longrightarrow> records_m record cAddr = Some validNonce \<Longrightarrow>
   length msg < length (varint (validNonce + secret)) \<Longrightarrow>
   handleRequest lib msg record rpcClient fs secret cAddr = Inl IndexOutOfRange"
  by (simp add: handleRequest_def Let_def PutVarint_short)

lemma client_hashMsg_eq:
  "length (varint (Nonce nonce + secret)) \<le> length msg \<Longrightarrow>
   client_hashMsg lib msg nonce secret =
     Inr \<lparr>Hash = EncodeToString (md5_Sum lib (varint (Nonce nonce + secret)))\<rparr>"
  by (simp add: client_hashMsg_def Let_def PutVarint_fits)

lemma rpc_Call_completes:
  "rpc_Call lib CallCompletes arg fs =
     (Some (fst (snd (GetFortuneInfo lib arg fs))), snd (snd (GetFortuneInfo lib arg fs)))"
  by (simp add: rpc_Call_def GetFortuneInfo_def Let_def split: prod.splits)

lemma GetFortuneInfo_eq:
  "GetFortuneInfo lib clientAddr this =
     (None,
      \<lparr>FortuneServer = server this, FortuneNonce = fst (rand_Int63 lib (rand_Seed lib 110))\<rparr>,
      this\<lparr>fortune_m := (fortune_m this)(clientAddr \<mapsto> fst (rand_Int63 lib (rand_Seed lib 110))),
           fserver_rand := snd (rand_Int63 lib (rand_Seed lib 110))\<rparr>)"
  by (simp add: GetFortuneInfo_def Let_def split: prod.splits)

lemma rand_Int63_fst: "fst (rand_Int63 lib g) = fst (rand_Uint64 lib g) AND rngMask"
  by (simp add: rand_Int63_def split: prod.splits)

lemma rand_Int63_less: "fst (rand_Int63 lib g) < 2 ^ 63"
  unfolding rand_Int63_fst by (rule Int63_range)

lemma rand_Int63_nonneg: "0 \<le> sint (fst (rand_Int63 lib g))"
  unfolding rand_Int63_fst by (rule Int63_nonneg)

section \<open>The library instance on the datagrams used below\<close>

lemma sample_probe_not_HashMessage:
  "json_Unmarshal_HashMessage sample_stdlib client_probe = None"
proof -
  have "sample_Unmarshal_HashMessage client_probe = None"
    by code_simp
  then show ?thesis
    by (simp add: sample_stdlib_def)
qed

lemma sample_probe_not_FortuneReqMessage:
  "json_Unmarshal_FortuneReqMessage sample_stdlib client_probe = None"
proof -
  have "sample_Unmarshal_FortuneReqMessage client_probe = None"
    by code_simp
  then show ?thesis
    by (simp add: sample_stdlib_def)
qed

lemma sample_Int63_222:
  "rand_Int63 sample_stdlib (rand_Seed sample_stdlib 222)
     = (3105015096096311893, 12328387132951087701)"
  by (simp add: rand_Int63_def sample_stdlib_def sample_Uint64_def rngMask_def)

lemma sample_Int63_110:
  "rand_Int63 sample_stdlib (rand_Seed sample_stdlib 110)
     = (521404863073232549, 521404863073232549)"
  by (simp add: rand_Int63_def sample_stdlib_def sample_Uint64_def rngMask_def)

lemma sample_empty_object_HashMessage:
  "json_Unmarshal_HashMessage sample_stdlib (bytes_of ''{}'') = Some \<lparr>Hash = ''''\<rparr>"
proof -
  have "sample_Unmarshal_HashMessage (bytes_of ''{}'') = Some \<lparr>Hash = ''''\<rparr>"
    by code_simp
  then show ?thesis
    by (simp add: sample_stdlib_def)
qed

lemma sample_hash_datagram:
  "json_Unmarshal_HashMessage sample_stdlib
     (bytes_of ''{\"Hash\":\"28496a8baccdee0f30517293b4d5f617\"}'')
     = Some \<lparr>Hash = ''28496a8baccdee0f30517293b4d5f617''\<rparr>"
proof -
  have "sample_Unmarshal_HashMessage (bytes_of ''{\"Hash\":\"28496a8baccdee0f30517293b4d5f617\"}'')
      = Some \<lparr>Hash = ''28496a8baccdee0f30517293b4d5f617''\<rparr>"
    by code_simp
  then show ?thesis
    by (simp add: sample_stdlib_def)
qed

lemma sample_request_datagram:
  "json_Unmarshal_FortuneReqMessage sample_stdlib
     (bytes_of ''{\"FortuneNonce\":521404863073232549}'')
     = Some \<lparr>FortuneNonce_req = 521404863073232549\<rparr>"
proof -
  have "sample_Unmarshal_FortuneReqMessage (bytes_of ''{\"FortuneNonce\":521404863073232549}'')
      = Some \<lparr>FortuneNonce_req = 521404863073232549\<rparr>"
    by code_simp
  then show ?thesis
    by (simp add: sample_stdlib_def)
qed

lemma sample_hash_1984:
  "EncodeToString (md5_Sum sample_stdlib (varint 3105015096096313877))
     = ''28496a8baccdee0f30517293b4d5f617''"
proof -
  have "EncodeToString (sample_Sum (varint 3105015096096313877))
      = ''28496a8baccdee0f30517293b4d5f617''"
    by code_simp
  then show ?thesis
    by (simp add: sample_stdlib_def)
qed

lemma sample_hash_1985:
  "EncodeToString (md5_Sum sample_stdlib (varint 3105015096096313878))
     = ''2a4b6c8daecff01132537495b6d7f819''"
proof -
  have "EncodeToString (sample_Sum (varint 3105015096096313878))
      = ''2a4b6c8daecff01132537495b6d7f819''"
    by code_simp
  then show ?thesis
    by (simp add: sample_stdlib_def)
qed

lemma hash_datagram_length:
  "length (bytes_of ''{\"Hash\":\"28496a8baccdee0f30517293b4d5f617\"}'') = 43"
  by (simp add: bytes_of_def)

lemma client_probe_length: "length client_probe = 1024"
  by (simp add: client_probe_def)

lemma rpc_Call_not_sent: "rpc_Call lib CallNotSent arg fs = (None, fs)"
  by (simp add: rpc_Call_def)

lemma handleRequest_returns_same_record:
  assumes "json_Unmarshal_HashMessage lib msg = Some hash"
      and "handleRequest lib msg record rpcClient fs secret cAddr = Inr (out, record', fs')"
  shows "record' = record"
  using assms
  by (auto simp: handleRequest_def Let_def split: option.splits sum.splits prod.splits if_splits)

lemma handleRequest_panic_or_return:
  "handleRequest lib msg record rpcClient fs secret cAddr = Inl IndexOutOfRange
   \<or> (\<exists>out record' fs'. handleRequest lib msg record rpcClient fs secret cAddr
          = Inr (out, record', fs'))"
proof (cases "handleRequest lib msg record rpcClient fs secret cAddr")
  case (Inl p)
  then show ?thesis
    by (cases p) simp
next
  case (Inr r)
  then show ?thesis
    by (cases r) simp
qed

lemma sample_varint_length: "length (varint 3105015096096313877) = 9"
  by code_simp

lemma empty_object_after_probe_panics:
  "handleRequest sample_stdlib (bytes_of ''{}'')
     \<lparr>records_m = [''127.0.0.1:2020'' \<mapsto> 3105015096096311893],
      aserver_rand = 12328387132951087701\<rparr>
     CallCompletes (fserver_start sample_stdlib ''127.0.0.1:9090'') 1984 ''127.0.0.1:2020''
   = Inl IndexOutOfRange"
proof -
  have stored: "records_m \<lparr>records_m = [''127.0.0.1:2020'' \<mapsto> 3105015096096311893],
      aserver_rand = 12328387132951087701 :: uint64\<rparr> ''127.0.0.1:2020''
      = Some 3105015096096311893"
    by simp
  have short: "length (bytes_of ''{}'') < length (varint (3105015096096311893 + 1984))"
    by (simp add: bytes_of_def sample_varint_length)
  from sample_empty_object_HashMessage stored short show ?thesis
    by (rule handleRequest_short_buffer)
qed

lemma handleRequest_never_malformed_notice:
  assumes "handleRequest lib msg record rpcClient fs secret cAddr = Inr (out, record', fs')"
  shows "WriteToUDP (ErrReply \<lparr>Error = ''could not interpret message''\<rparr>) cAddr \<notin> set out"
  using assms
  by (auto simp: handleRequest_def Let_def split: option.splits sum.splits prod.splits if_splits)

lemma fortune_malformed:
  "json_Unmarshal_FortuneReqMessage lib msg = None \<Longrightarrow>
   fortune lib msg fortuneServerRPC fortuneString cAddr =
     [WriteToUDP (ErrReply \<lparr>Error = ''could not interpret message''\<rparr>) cAddr]"
  by (simp add: fortune_def)

section \<open>What a probe and a grant do\<close>

text \<open>
  Whatever the authorization server's state, a datagram that does not decode as a
  HashMessage makes \<open>handleRequest\<close> draw a token from the generator it has just seeded
  with 222, a value in the range \<open>0 \<le> token < 2^63\<close>; store it for the sender's address,
  over any entry that was there; and write one datagram, a NonceMessage with that token, to
  the sender.
\<close>

lemma probe_issues_token:
  assumes "json_Unmarshal_HashMessage lib msg = None"
  shows "\<exists>token g'. rand_Int63 lib (rand_Seed lib 222) = (token, g')
           \<and> token < 2 ^ 63 \<and> 0 \<le> sint token
           \<and> handleRequest lib msg record rpcClient fs secret cAddr =
               Inr ([WriteToUDP (NonceReply \<lparr>Nonce = token\<rparr>) cAddr],
                    record\<lparr>records_m := (records_m record)(cAddr \<mapsto> token),
                           aserver_rand := g'\<rparr>,
                    fs)"
proof (intro exI conjI)
  show "rand_Int63 lib (rand_Seed lib 222)
      = (fst (rand_Int63 lib (rand_Seed lib 222)), snd (rand_Int63 lib (rand_Seed lib 222)))"
    by simp
  show "fst (rand_Int63 lib (rand_Seed lib 222)) < 2 ^ 63"
    by (rule rand_Int63_less)
  show "0 \<le> sint (fst (rand_Int63 lib (rand_Seed lib 222)))"
    by (rule rand_Int63_nonneg)
  show "handleRequest lib msg record rpcClient fs secret cAddr =
      Inr ([WriteToUDP (NonceReply \<lparr>Nonce = fst (rand_Int63 lib (rand_Seed lib 222))\<rparr>) cAddr],
           record\<lparr>records_m := (records_m record)(cAddr \<mapsto> fst (rand_Int63 lib (rand_Seed lib 222))),
                  aserver_rand := snd (rand_Int63 lib (rand_Seed lib 222))\<rparr>,
           fs)"
    using assms by (rule handleRequest_probe)
qed

lemma probe_issues_token_witness:
  "json_Unmarshal_HashMessage sample_stdlib client_probe = None
   \<and> handleRequest sample_stdlib client_probe
        \<lparr>records_m = [''127.0.0.1:2020'' \<mapsto> 7], aserver_rand = 0\<rparr>
        CallCompletes (fserver_start sample_stdlib ''127.0.0.1:9090'') 1984 ''127.0.0.1:2020''
      = Inr ([WriteToUDP (NonceReply \<lparr>Nonce = 3105015096096311893\<rparr>) ''127.0.0.1:2020''],
             \<lparr>records_m = [''127.0.0.1:2020'' \<mapsto> 3105015096096311893],
              aserver_rand = 12328387132951087701\<rparr>,
             fserver_start sample_stdlib ''127.0.0.1:9090'')"
proof -
  note h = sample_probe_not_HashMessage
  from probe_issues_token [OF h, of "\<lparr>records_m = [''127.0.0.1:2020'' \<mapsto> 7], aserver_rand = 0\<rparr>"
      CallCompletes "fserver_start sample_stdlib ''127.0.0.1:9090''" 1984 "''127.0.0.1:2020''"]
  show ?thesis
    using h by (simp add: sample_Int63_222)
qed

text \<open>
  \<open>GetFortuneInfo\<close> draws a token from the generator it has just seeded with 110, a value
  in the range \<open>0 \<le> token < 2^63\<close>; stores it for the client address in the fortune
  server's own map, over any entry that was there; and returns, with a nil error, a
  FortuneInfoMessage with the server's own UDP address and that token.
\<close>

lemma GetFortuneInfo_grant:
  "\<exists>token g'. rand_Int63 lib (rand_Seed lib 110) = (token, g')
     \<and> token < 2 ^ 63 \<and> 0 \<le> sint token
     \<and> GetFortuneInfo lib clientAddr this =
         (None,
          \<lparr>FortuneServer = server this, FortuneNonce = token\<rparr>,
          this\<lparr>fortune_m := (fortune_m this)(clientAddr \<mapsto> token), fserver_rand := g'\<rparr>)"
proof (intro exI conjI)
  show "rand_Int63 lib (rand_Seed lib 110)
      = (fst (rand_Int63 lib (rand_Seed lib 110)), snd (rand_Int63 lib (rand_Seed lib 110)))"
    by simp
  show "fst (rand_Int63 lib (rand_Seed lib 110)) < 2 ^ 63"
    by (rule rand_Int63_less)
  show "0 \<le> sint (fst (rand_Int63 lib (rand_Seed lib 110)))"
    by (rule rand_Int63_nonneg)
  show "GetFortuneInfo lib clientAddr this =
      (None,
       \<lparr>FortuneServer = server this, FortuneNonce = fst (rand_Int63 lib (rand_Seed lib 110))\<rparr>,
       this\<lparr>fortune_m := (fortune_m this)(clientAddr \<mapsto> fst (rand_Int63 lib (rand_Seed lib 110))),
            fserver_rand := snd (rand_Int63 lib (rand_Seed lib 110))\<rparr>)"
    by (rule GetFortuneInfo_eq)
qed

lemma GetFortuneInfo_grant_witness:
  "GetFortuneInfo sample_stdlib ''127.0.0.1:2020''
     \<lparr>fortune_m = [''127.0.0.1:2020'' \<mapsto> 7], server = ''127.0.0.1:9090'', fserver_rand = 0\<rparr>
   = (None,
      \<lparr>FortuneServer = ''127.0.0.1:9090'', FortuneNonce = 521404863073232549\<rparr>,
      \<lparr>fortune_m = [''127.0.0.1:2020'' \<mapsto> 521404863073232549], server = ''127.0.0.1:9090'',
       fserver_rand = 521404863073232549\<rparr>)"
  using GetFortuneInfo_grant [of sample_stdlib "''127.0.0.1:2020''"
      "\<lparr>fortune_m = [''127.0.0.1:2020'' \<mapsto> 7], server = ''127.0.0.1:9090'', fserver_rand = 0\<rparr>"]
  by (simp add: sample_Int63_110)

text \<open>
  A datagram that decodes as a HashMessage is never answered with a NonceMessage. The empty
  JSON object decodes as a HashMessage with an empty hash, so it is no probe.
\<close>

lemma handleRequest_decoded_no_nonce:
  assumes "json_Unmarshal_HashMessage lib msg = Some hash"
      and "handleRequest lib msg record rpcClient fs secret cAddr = Inr (out, record', fs')"
  shows "WriteToUDP (NonceReply nonce) cAddr \<notin> set out"
  using assms
  by (auto simp: handleRequest_def Let_def split: option.splits sum.splits prod.splits if_splits)

lemma empty_object_is_no_probe:
  "handleRequest sample_stdlib (bytes_of ''{}'') (aserver_start sample_stdlib) CallCompletes
     (fserver_start sample_stdlib ''127.0.0.1:9090'') 1984 ''127.0.0.1:2020''
   = Inr ([WriteToUDP (ErrReply \<lparr>Error = ''unknown remote client address''\<rparr>) ''127.0.0.1:2020''],
          aserver_start sample_stdlib, fserver_start sample_stdlib ''127.0.0.1:9090'')"
proof -
  have "records_m (aserver_start sample_stdlib) ''127.0.0.1:2020'' = None"
    by (simp add: aserver_start_def)
  with sample_empty_object_HashMessage show ?thesis
    by (rule handleRequest_unknown)
qed

section \<open>The claims\<close>

text \<open>
  Claim C1. For every nonce and secret, the client (with its 1024-byte buffer) computes the
  lowercase hexadecimal rendering of the MD5 digest of the varint encoding of
  \<open>nonce + secret\<close>, and never panics doing so. For a datagram that decodes as a
  HashMessage and is at least ten bytes long (any JSON text carrying a 32-digit hash is),
  sent from an address whose stored nonce is that nonce, the authorization server compares
  the hash received with exactly that string: it goes on to the handoff when they are
  equal and answers "unexpected hash value" otherwise. So the client's own HashMessage
  passes the verification.
\<close>

theorem client_hash_is_servers_hash:
  assumes "length cbuf = 1024"
      and "records_m record cAddr = Some (Nonce nonce)"
      and "json_Unmarshal_HashMessage lib msg = Some hash"
      and "10 \<le> length msg"
  shows "\<exists>hashStr.
           client_hashMsg lib cbuf nonce secret = Inr \<lparr>Hash = hashStr\<rparr>
         \<and> hashStr = EncodeToString (md5_Sum lib (varint (Nonce nonce + secret)))
         \<and> set hashStr \<subseteq> set ''0123456789abcdef''
         \<and> handleRequest lib msg record rpcClient fs secret cAddr =
             (if Hash hash = hashStr then
                (case rpc_Call lib rpcClient cAddr fs of
                   (Some fInfoMsg, fs') \<Rightarrow>
                     Inr ([RPCCall ''FortuneServerRPC.GetFortuneInfo'' cAddr,
                           WriteToUDP (FortuneInfoReply fInfoMsg) cAddr], record, fs')
                 | (None, fs') \<Rightarrow>
                     Inr ([RPCCall ''FortuneServerRPC.GetFortuneInfo'' cAddr], record, fs'))
              else
                Inr ([WriteToUDP (ErrReply \<lparr>Error = ''unexpected hash value''\<rparr>) cAddr],
                     record, fs))"
proof -
  let ?enc = "varint (Nonce nonce + secret)"
  let ?h = "EncodeToString (md5_Sum lib ?enc)"
  have short: "length ?enc \<le> 10"
    by (rule varint_length_le_10)
  with assms(1) have "length ?enc \<le> length cbuf"
    by simp
  then have client: "client_hashMsg lib cbuf nonce secret = Inr \<lparr>Hash = ?h\<rparr>"
    by (rule client_hashMsg_eq)
  have hex: "set ?h \<subseteq> set ''0123456789abcdef''"
    using EncodeToString_lowercase_hex [of "md5_Sum lib ?enc"] by (simp add: hextable_def)
  from short assms(4) have "length ?enc \<le> length msg"
    by simp
  from handleRequest_checked [OF assms(3) assms(2) this, of rpcClient fs]
  have server: "handleRequest lib msg record rpcClient fs secret cAddr =
      (if Hash hash = ?h then
         (case rpc_Call lib rpcClient cAddr fs of
            (Some fInfoMsg, fs') \<Rightarrow>
              Inr ([RPCCall ''FortuneServerRPC.GetFortuneInfo'' cAddr,
                    WriteToUDP (FortuneInfoReply fInfoMsg) cAddr], record, fs')
          | (None, fs') \<Rightarrow>
              Inr ([RPCCall ''FortuneServerRPC.GetFortuneInfo'' cAddr], record, fs'))
       else
         Inr ([WriteToUDP (ErrReply \<lparr>Error = ''unexpected hash value''\<rparr>) cAddr],
              record, fs))"
    by (simp add: eq_commute [of ?h])
  from client hex server show ?thesis
    by blast
qed

theorem client_hash_is_servers_hash_witness:
  "length client_probe = 1024
   \<and> records_m \<lparr>records_m = [''127.0.0.1:2020'' \<mapsto> 3105015096096311893],
                 aserver_rand = 12328387132951087701\<rparr> ''127.0.0.1:2020''
       = Some (Nonce \<lparr>Nonce = 3105015096096311893\<rparr>)
   \<and> json_Unmarshal_HashMessage sample_stdlib
        (bytes_of ''{\"Hash\":\"28496a8baccdee0f30517293b4d5f617\"}'')
       = Some \<lparr>Hash = ''28496a8baccdee0f30517293b4d5f617''\<rparr>
   \<and> 10 \<le> length (bytes_of ''{\"Hash\":\"28496a8baccdee0f30517293b4d5f617\"}'')
   \<and> client_hashMsg sample_stdlib client_probe \<lparr>Nonce = 3105015096096311893\<rparr> 1984
       = Inr \<lparr>Hash = ''28496a8baccdee0f30517293b4d5f617''\<rparr>
   \<and> handleRequest sample_stdlib (bytes_of ''{\"Hash\":\"28496a8baccdee0f30517293b4d5f617\"}'')
        \<lparr>records_m = [''127.0.0.1:2020'' \<mapsto> 3105015096096311893],
         aserver_rand = 12328387132951087701\<rparr>
        CallCompletes (fserver_start sample_stdlib ''127.0.0.1:9090'') 1984 ''127.0.0.1:2020''
       = Inr ([RPCCall ''FortuneServerRPC.GetFortuneInfo'' ''127.0.0.1:2020'',
               WriteToUDP (FortuneInfoReply \<lparr>FortuneServer = ''127.0.0.1:9090'',
                                              FortuneNonce = 521404863073232549\<rparr>)
                 ''127.0.0.1:2020''],
              \<lparr>records_m = [''127.0.0.1:2020'' \<mapsto> 3105015096096311893],
               aserver_rand = 12328387132951087701\<rparr>,
              \<lparr>fortune_m = [''127.0.0.1:2020'' \<mapsto> 521404863073232549],
               server = ''127.0.0.1:9090'', fserver_rand = 521404863073232549\<rparr>)"
proof -
  let ?rec = "\<lparr>records_m = [''127.0.0.1:2020'' \<mapsto> 3105015096096311893],
                  aserver_rand = 12328387132951087701 :: uint64\<rparr>"
  have buf: "length client_probe = 1024"
    by (rule client_probe_length)
  have stored: "records_m ?rec ''127.0.0.1:2020'' = Some (Nonce \<lparr>Nonce = 3105015096096311893\<rparr>)"
    by simp
  note sent = sample_hash_datagram
  have long: "10 \<le> length (bytes_of ''{\"Hash\":\"28496a8baccdee0f30517293b4d5f617\"}'')"
    by (simp add: hash_datagram_length)
  from client_hash_is_servers_hash [OF buf stored sent long, of 1984 CallCompletes
      "fserver_start sample_stdlib ''127.0.0.1:9090''"]
  obtain hashStr where
    client: "client_hashMsg sample_stdlib client_probe \<lparr>Nonce = 3105015096096311893\<rparr> 1984
        = Inr \<lparr>Hash = hashStr\<rparr>"
    and enc: "hashStr = EncodeToString (md5_Sum sample_stdlib
        (varint (Nonce \<lparr>Nonce = 3105015096096311893\<rparr> + 1984)))"
    and server: "handleRequest sample_stdlib
          (bytes_of ''{\"Hash\":\"28496a8baccdee0f30517293b4d5f617\"}'')
          ?rec CallCompletes (fserver_start sample_stdlib ''127.0.0.1:9090'') 1984
          ''127.0.0.1:2020''
        = (if Hash \<lparr>Hash = ''28496a8baccdee0f30517293b4d5f617''\<rparr> = hashStr then
             (case rpc_Call sample_stdlib CallCompletes ''127.0.0.1:2020''
                     (fserver_start sample_stdlib ''127.0.0.1:9090'') of
                (Some fInfoMsg, fs') \<Rightarrow>
                  Inr ([RPCCall ''FortuneServerRPC.GetFortuneInfo'' ''127.0.0.1:2020'',
                        WriteToUDP (FortuneInfoReply fInfoMsg) ''127.0.0.1:2020''], ?rec, fs')
              | (None, fs') \<Rightarrow>
                  Inr ([RPCCall ''FortuneServerRPC.GetFortuneInfo'' ''127.0.0.1:2020''],
                       ?rec, fs'))
           else
             Inr ([WriteToUDP (ErrReply \<lparr>Error = ''unexpected hash value''\<rparr>)
                     ''127.0.0.1:2020''], ?rec,
                  fserver_start sample_stdlib ''127.0.0.1:9090''))"
    by blast
  have digits: "hashStr = ''28496a8baccdee0f30517293b4d5f617''"
    unfolding enc by (simp add: sample_hash_1984)
  have handoff: "rpc_Call sample_stdlib CallCompletes ''127.0.0.1:2020''
        (fserver_start sample_stdlib ''127.0.0.1:9090'')
      = (Some \<lparr>FortuneServer = ''127.0.0.1:9090'', FortuneNonce = 521404863073232549\<rparr>,
         \<lparr>fortune_m = [''127.0.0.1:2020'' \<mapsto> 521404863073232549],
          server = ''127.0.0.1:9090'', fserver_rand = 521404863073232549\<rparr>)"
    by (simp add: rpc_Call_completes GetFortuneInfo_eq sample_Int63_110 fserver_start_def)
  have run: "client_hashMsg sample_stdlib client_probe \<lparr>Nonce = 3105015096096311893\<rparr> 1984
       = Inr \<lparr>Hash = ''28496a8baccdee0f30517293b4d5f617''\<rparr>
     \<and> handleRequest sample_stdlib (bytes_of ''{\"Hash\":\"28496a8baccdee0f30517293b4d5f617\"}'')
        ?rec CallCompletes (fserver_start sample_stdlib ''127.0.0.1:9090'') 1984 ''127.0.0.1:2020''
       = Inr ([RPCCall ''FortuneServerRPC.GetFortuneInfo'' ''127.0.0.1:2020'',
               WriteToUDP (FortuneInfoReply \<lparr>FortuneServer = ''127.0.0.1:9090'',
                                              FortuneNonce = 521404863073232549\<rparr>)
                 ''127.0.0.1:2020''],
              ?rec,
              \<lparr>fortune_m = [''127.0.0.1:2020'' \<mapsto> 521404863073232549],
               server = ''127.0.0.1:9090'', fserver_rand = 521404863073232549\<rparr>)"
    using client server by (simp only: digits handoff) simp
  from buf stored sent long run show ?thesis
    by (intro conjI) simp_all
qed

text \<open>
  Claim C2 asks that two successive probe handlings give different tokens. The code seeds
  the generator with the constant 222 before every draw, so for every library, every state
  and every two datagrams that do not decode as a HashMessage, handled one after the other,
  the two NonceMessages carry the same token, whatever the senders' addresses. The fortune
  server does the same with the constant 110: any two calls of \<open>GetFortuneInfo\<close> return
  the same FortuneNonce.
\<close>

theorem successive_probes_same_token:
  assumes "json_Unmarshal_HashMessage lib msg1 = None"
      and "json_Unmarshal_HashMessage lib msg2 = None"
  shows "(\<exists>token record'.
            serve lib secret [(msg1, cAddr1, rpcClient1), (msg2, cAddr2, rpcClient2)] record fs
              = Inr ([WriteToUDP (NonceReply \<lparr>Nonce = token\<rparr>) cAddr1,
                      WriteToUDP (NonceReply \<lparr>Nonce = token\<rparr>) cAddr2], record', fs))
       \<and> FortuneNonce (fst (snd (GetFortuneInfo lib clientAddr1 this1)))
           = FortuneNonce (fst (snd (GetFortuneInfo lib clientAddr2 this2)))"
  by (simp add: handleRequest_probe [OF assms(1)] handleRequest_probe [OF assms(2)]
      GetFortuneInfo_eq)

theorem successive_probes_same_token_witness:
  "json_Unmarshal_HashMessage sample_stdlib client_probe = None
   \<and> map_sum id fst
        (serve sample_stdlib 1984
           [(client_probe, ''127.0.0.1:2020'', CallCompletes),
            (client_probe, ''127.0.0.1:2021'', CallCompletes)]
           (aserver_start sample_stdlib) (fserver_start sample_stdlib ''127.0.0.1:9090''))
      = Inr [WriteToUDP (NonceReply \<lparr>Nonce = 3105015096096311893\<rparr>) ''127.0.0.1:2020'',
             WriteToUDP (NonceReply \<lparr>Nonce = 3105015096096311893\<rparr>) ''127.0.0.1:2021'']
   \<and> FortuneNonce (fst (snd (GetFortuneInfo sample_stdlib ''127.0.0.1:2020''
          (fserver_start sample_stdlib ''127.0.0.1:9090''))))
      = FortuneNonce (fst (snd (GetFortuneInfo sample_stdlib ''127.0.0.1:2021''
          (fserver_start sample_stdlib ''127.0.0.1:9090''))))"
proof -
  note probe = sample_probe_not_HashMessage
  from successive_probes_same_token [OF probe probe, of 1984 "''127.0.0.1:2020''" CallCompletes
      "''127.0.0.1:2021''" CallCompletes "aserver_start sample_stdlib"
      "fserver_start sample_stdlib ''127.0.0.1:9090''"
      "''127.0.0.1:2020''" "fserver_start sample_stdlib ''127.0.0.1:9090''"
      "''127.0.0.1:2021''" "fserver_start sample_stdlib ''127.0.0.1:9090''"]
  have same: "FortuneNonce (fst (snd (GetFortuneInfo sample_stdlib ''127.0.0.1:2020''
          (fserver_start sample_stdlib ''127.0.0.1:9090''))))
      = FortuneNonce (fst (snd (GetFortuneInfo sample_stdlib ''127.0.0.1:2021''
          (fserver_start sample_stdlib ''127.0.0.1:9090''))))"
    by blast
  have run: "map_sum id fst
        (serve sample_stdlib 1984
           [(client_probe, ''127.0.0.1:2020'', CallCompletes),
            (client_probe, ''127.0.0.1:2021'', CallCompletes)]
           (aserver_start sample_stdlib) (fserver_start sample_stdlib ''127.0.0.1:9090''))
      = Inr [WriteToUDP (NonceReply \<lparr>Nonce = 3105015096096311893\<rparr>) ''127.0.0.1:2020'',
             WriteToUDP (NonceReply \<lparr>Nonce = 3105015096096311893\<rparr>) ''127.0.0.1:2021'']"
    by (simp add: handleRequest_probe [OF probe] sample_Int63_222)
  from probe run same show ?thesis
    by (intro conjI)
qed

text \<open>
  Claim C3 asks that a second probe from an address invalidates the hash computed against
  the nonce of the first. In the code the second probe stores the same nonce again (see
  C2), so the HashMessage the client computed from the first NonceMessage is still accepted
  after the second probe: the authorization server makes the handoff call and answers with
  the FortuneInfoMessage, not with "unexpected hash value".
\<close>

theorem stale_hash_accepted_after_second_probe:
  assumes probe1: "json_Unmarshal_HashMessage lib probe1 = None"
      and probe2: "json_Unmarshal_HashMessage lib probe2 = None"
      and first: "handleRequest lib probe1 record rpcClient1 fs secret cAddr
                    = Inr ([WriteToUDP (NonceReply nonce1) cAddr], record1, fs1)"
      and cbuf: "length cbuf = 1024"
      and client: "client_hashMsg lib cbuf nonce1 secret = Inr hash"
      and sent: "json_Unmarshal_HashMessage lib msg = Some hash"
      and long: "10 \<le> length msg"
  shows "\<exists>record' fs'.
           serve lib secret
             [(probe1, cAddr, rpcClient1), (probe2, cAddr, rpcClient2), (msg, cAddr, CallCompletes)]
             record fs
           = Inr ([WriteToUDP (NonceReply nonce1) cAddr,
                   WriteToUDP (NonceReply nonce1) cAddr,
                   RPCCall ''FortuneServerRPC.GetFortuneInfo'' cAddr,
                   WriteToUDP (FortuneInfoReply (fst (snd (GetFortuneInfo lib cAddr fs)))) cAddr],
                  record', fs')"
proof -
  define t where "t = fst (rand_Int63 lib (rand_Seed lib 222))"
  define g where "g = snd (rand_Int63 lib (rand_Seed lib 222))"
  define r1 where "r1 = record\<lparr>records_m := (records_m record)(cAddr \<mapsto> t), aserver_rand := g\<rparr>"
  define r2 where "r2 = r1\<lparr>records_m := (records_m r1)(cAddr \<mapsto> t), aserver_rand := g\<rparr>"
  define info where "info = fst (snd (GetFortuneInfo lib cAddr fs))"
  define fs3 where "fs3 = snd (snd (GetFortuneInfo lib cAddr fs))"
  have step1: "handleRequest lib probe1 record rpcClient1 fs secret cAddr
      = Inr ([WriteToUDP (NonceReply \<lparr>Nonce = t\<rparr>) cAddr], r1, fs)"
    unfolding t_def g_def r1_def using probe1 by (rule handleRequest_probe)
  with first have nonce1: "nonce1 = \<lparr>Nonce = t\<rparr>"
    by simp
  have step2: "handleRequest lib probe2 r1 rpcClient2 fs secret cAddr
      = Inr ([WriteToUDP (NonceReply \<lparr>Nonce = t\<rparr>) cAddr], r2, fs)"
    unfolding t_def g_def r2_def using probe2 by (rule handleRequest_probe)
  have stored: "records_m r2 cAddr = Some t"
    by (simp add: r2_def)
  have short: "length (varint (t + secret)) \<le> 10"
    by (rule varint_length_le_10)
  with cbuf have "length (varint (Nonce nonce1 + secret)) \<le> length cbuf"
    by (simp add: nonce1)
  from client_hashMsg_eq [OF this, of lib] client
  have hash: "Hash hash = EncodeToString (md5_Sum lib (varint (t + secret)))"
    by (auto simp: nonce1)
  from short long have "length (varint (t + secret)) \<le> length msg"
    by simp
  from handleRequest_checked [OF sent stored this, of CallCompletes fs]
  have step3: "handleRequest lib msg r2 CallCompletes fs secret cAddr
      = Inr ([RPCCall ''FortuneServerRPC.GetFortuneInfo'' cAddr,
              WriteToUDP (FortuneInfoReply info) cAddr], r2, fs3)"
    by (simp add: hash rpc_Call_completes info_def fs3_def)
  have "serve lib secret
      [(probe1, cAddr, rpcClient1), (probe2, cAddr, rpcClient2), (msg, cAddr, CallCompletes)]
      record fs
    = Inr ([WriteToUDP (NonceReply nonce1) cAddr,
            WriteToUDP (NonceReply nonce1) cAddr,
            RPCCall ''FortuneServerRPC.GetFortuneInfo'' cAddr,
            WriteToUDP (FortuneInfoReply info) cAddr], r2, fs3)"
    by (simp add: step1 step2 step3 nonce1)
  then show ?thesis
    unfolding info_def by blast
qed

theorem stale_hash_accepted_after_second_probe_witness:
  "json_Unmarshal_HashMessage sample_stdlib client_probe = None
   \<and> handleRequest sample_stdlib client_probe (aserver_start sample_stdlib) CallCompletes
        (fserver_start sample_stdlib ''127.0.0.1:9090'') 1984 ''127.0.0.1:2020''
      = Inr ([WriteToUDP (NonceReply \<lparr>Nonce = 3105015096096311893\<rparr>) ''127.0.0.1:2020''],
             \<lparr>records_m = [''127.0.0.1:2020'' \<mapsto> 3105015096096311893],
              aserver_rand = 12328387132951087701\<rparr>,
             fserver_start sample_stdlib ''127.0.0.1:9090'')
   \<and> length client_probe = 1024
   \<and> client_hashMsg sample_stdlib client_probe \<lparr>Nonce = 3105015096096311893\<rparr> 1984
      = Inr \<lparr>Hash = ''28496a8baccdee0f30517293b4d5f617''\<rparr>
   \<and> json_Unmarshal_HashMessage sample_stdlib
        (bytes_of ''{\"Hash\":\"28496a8baccdee0f30517293b4d5f617\"}'')
      = Some \<lparr>Hash = ''28496a8baccdee0f30517293b4d5f617''\<rparr>
   \<and> 10 \<le> length (bytes_of ''{\"Hash\":\"28496a8baccdee0f30517293b4d5f617\"}'')
   \<and> map_sum id fst
        (serve sample_stdlib 1984
           [(client_probe, ''127.0.0.1:2020'', CallCompletes),
            (client_probe, ''127.0.0.1:2020'', CallCompletes),
            (bytes_of ''{\"Hash\":\"28496a8baccdee0f30517293b4d5f617\"}'', ''127.0.0.1:2020'',
             CallCompletes)]
           (aserver_start sample_stdlib) (fserver_start sample_stdlib ''127.0.0.1:9090''))
      = Inr [WriteToUDP (NonceReply \<lparr>Nonce = 3105015096096311893\<rparr>) ''127.0.0.1:2020'',
             WriteToUDP (NonceReply \<lparr>Nonce = 3105015096096311893\<rparr>) ''127.0.0.1:2020'',
             RPCCall ''FortuneServerRPC.GetFortuneInfo'' ''127.0.0.1:2020'',
             WriteToUDP (FortuneInfoReply \<lparr>FortuneServer = ''127.0.0.1:9090'',
                                            FortuneNonce = 521404863073232549\<rparr>)
               ''127.0.0.1:2020'']"
proof -
  let ?msg = "bytes_of ''{\"Hash\":\"28496a8baccdee0f30517293b4d5f617\"}''"
  let ?fs = "fserver_start sample_stdlib ''127.0.0.1:9090''"
  note probe = sample_probe_not_HashMessage
  have first: "handleRequest sample_stdlib client_probe (aserver_start sample_stdlib) CallCompletes
        ?fs 1984 ''127.0.0.1:2020''
      = Inr ([WriteToUDP (NonceReply \<lparr>Nonce = 3105015096096311893\<rparr>) ''127.0.0.1:2020''],
             \<lparr>records_m = [''127.0.0.1:2020'' \<mapsto> 3105015096096311893],
              aserver_rand = 12328387132951087701\<rparr>, ?fs)"
    by (simp add: handleRequest_probe [OF probe] sample_Int63_222 aserver_start_def)
  note cbuf = client_probe_length
  have client: "client_hashMsg sample_stdlib client_probe \<lparr>Nonce = 3105015096096311893\<rparr> 1984
      = Inr \<lparr>Hash = ''28496a8baccdee0f30517293b4d5f617''\<rparr>"
    using client_hashMsg_eq [of "\<lparr>Nonce = 3105015096096311893\<rparr>" 1984 client_probe sample_stdlib]
      varint_length_le_10 [of "3105015096096313877"]
    by (simp add: client_probe_length sample_hash_1984)
  note sent = sample_hash_datagram
  have long: "10 \<le> length ?msg"
    by (simp add: hash_datagram_length)
  from stale_hash_accepted_after_second_probe [OF probe probe first cbuf client sent long,
      of CallCompletes]
  obtain record' fs' where run: "serve sample_stdlib 1984
        [(client_probe, ''127.0.0.1:2020'', CallCompletes),
         (client_probe, ''127.0.0.1:2020'', CallCompletes),
         (?msg, ''127.0.0.1:2020'', CallCompletes)]
        (aserver_start sample_stdlib) ?fs
      = Inr ([WriteToUDP (NonceReply \<lparr>Nonce = 3105015096096311893\<rparr>) ''127.0.0.1:2020'',
              WriteToUDP (NonceReply \<lparr>Nonce = 3105015096096311893\<rparr>) ''127.0.0.1:2020'',
              RPCCall ''FortuneServerRPC.GetFortuneInfo'' ''127.0.0.1:2020'',
              WriteToUDP (FortuneInfoReply
                  (fst (snd (GetFortuneInfo sample_stdlib ''127.0.0.1:2020'' ?fs))))
                ''127.0.0.1:2020''], record', fs')"
    by blast
  have grant: "fst (snd (GetFortuneInfo sample_stdlib ''127.0.0.1:2020'' ?fs))
      = \<lparr>FortuneServer = ''127.0.0.1:9090'', FortuneNonce = 521404863073232549\<rparr>"
    by (simp add: GetFortuneInfo_eq sample_Int63_110 fserver_start_def)
  have trace: "map_sum id fst
        (serve sample_stdlib 1984
           [(client_probe, ''127.0.0.1:2020'', CallCompletes),
            (client_probe, ''127.0.0.1:2020'', CallCompletes),
            (?msg, ''127.0.0.1:2020'', CallCompletes)]
           (aserver_start sample_stdlib) ?fs)
      = Inr [WriteToUDP (NonceReply \<lparr>Nonce = 3105015096096311893\<rparr>) ''127.0.0.1:2020'',
             WriteToUDP (NonceReply \<lparr>Nonce = 3105015096096311893\<rparr>) ''127.0.0.1:2020'',
             RPCCall ''FortuneServerRPC.GetFortuneInfo'' ''127.0.0.1:2020'',
             WriteToUDP (FortuneInfoReply \<lparr>FortuneServer = ''127.0.0.1:9090'',
                                            FortuneNonce = 521404863073232549\<rparr>)
               ''127.0.0.1:2020'']"
    by (simp only: run grant) simp
  from probe first cbuf client sent long trace show ?thesis
    by (intro conjI)
qed

text \<open>
  Claim C4, as the code has it. A datagram that does not decode as a FortuneReqMessage is
  answered by the fortune server with ErrMessage "could not interpret message". The
  authorization server has no such answer: a datagram that does not decode as a HashMessage
  is taken as a probe and answered with a NonceMessage, and no handling by
  \<open>handleRequest\<close> ever writes "could not interpret message".
\<close>

theorem malformed_message_replies:
  "(json_Unmarshal_FortuneReqMessage lib msg = None \<longrightarrow>
      fortune lib msg fortuneServerRPC fortuneString cAddr =
        [WriteToUDP (ErrReply \<lparr>Error = ''could not interpret message''\<rparr>) cAddr])
   \<and> (json_Unmarshal_HashMessage lib msg = None \<longrightarrow>
        (\<exists>nonce record'. handleRequest lib msg record rpcClient fs secret cAddr =
           Inr ([WriteToUDP (NonceReply nonce) cAddr], record', fs)))
   \<and> (\<forall>out record' fs'.
        handleRequest lib msg record rpcClient fs secret cAddr = Inr (out, record', fs') \<longrightarrow>
        WriteToUDP (ErrReply \<lparr>Error = ''could not interpret message''\<rparr>) cAddr \<notin> set out)"
proof (intro conjI impI allI)
  assume "json_Unmarshal_FortuneReqMessage lib msg = None"
  then show "fortune lib msg fortuneServerRPC fortuneString cAddr =
      [WriteToUDP (ErrReply \<lparr>Error = ''could not interpret message''\<rparr>) cAddr]"
    by (rule fortune_malformed)
next
  assume "json_Unmarshal_HashMessage lib msg = None"
  from handleRequest_probe [OF this]
  show "\<exists>nonce record'. handleRequest lib msg record rpcClient fs secret cAddr =
      Inr ([WriteToUDP (NonceReply nonce) cAddr], record', fs)"
    by blast
next
  fix out record' fs'
  assume "handleRequest lib msg record rpcClient fs secret cAddr = Inr (out, record', fs')"
  then show "WriteToUDP (ErrReply \<lparr>Error = ''could not interpret message''\<rparr>) cAddr \<notin> set out"
    by (rule handleRequest_never_malformed_notice)
qed

theorem malformed_message_replies_witness:
  "json_Unmarshal_FortuneReqMessage sample_stdlib client_probe = None
   \<and> json_Unmarshal_HashMessage sample_stdlib client_probe = None
   \<and> fortune sample_stdlib client_probe (fserver_start sample_stdlib ''127.0.0.1:9090'')
        ''seize the day'' ''127.0.0.1:2020''
      = [WriteToUDP (ErrReply \<lparr>Error = ''could not interpret message''\<rparr>) ''127.0.0.1:2020'']
   \<and> (\<exists>nonce record'.
        handleRequest sample_stdlib client_probe (aserver_start sample_stdlib) CallCompletes
          (fserver_start sample_stdlib ''127.0.0.1:9090'') 1984 ''127.0.0.1:2020''
        = Inr ([WriteToUDP (NonceReply nonce) ''127.0.0.1:2020''], record',
               fserver_start sample_stdlib ''127.0.0.1:9090''))"
  using malformed_message_replies [of sample_stdlib client_probe
      "fserver_start sample_stdlib ''127.0.0.1:9090''" "''seize the day''" "''127.0.0.1:2020''"
      "aserver_start sample_stdlib" CallCompletes "fserver_start sample_stdlib ''127.0.0.1:9090''" 1984]
    sample_probe_not_HashMessage sample_probe_not_FortuneReqMessage
  by blast

text \<open>
  The claim as stated, "each of the two servers answers a datagram that decodes as nothing
  with ErrMessage 'could not interpret message'", fails at the authorization server on the
  client's own probe, which decodes neither as a HashMessage nor as a FortuneReqMessage:
  the answer is a NonceMessage.
\<close>

theorem malformed_at_aserver_counterexample:
  "json_Unmarshal_HashMessage sample_stdlib client_probe = None
   \<and> json_Unmarshal_FortuneReqMessage sample_stdlib client_probe = None
   \<and> map_sum id fst (handleRequest sample_stdlib client_probe (aserver_start sample_stdlib)
         CallCompletes (fserver_start sample_stdlib ''127.0.0.1:9090'') 1984 ''127.0.0.1:2020'')
       = Inr [WriteToUDP (NonceReply \<lparr>Nonce = 3105015096096311893\<rparr>) ''127.0.0.1:2020'']
   \<and> map_sum id fst (handleRequest sample_stdlib client_probe (aserver_start sample_stdlib)
         CallCompletes (fserver_start sample_stdlib ''127.0.0.1:9090'') 1984 ''127.0.0.1:2020'')
       \<noteq> Inr [WriteToUDP (ErrReply \<lparr>Error = ''could not interpret message''\<rparr>)
                ''127.0.0.1:2020'']"
  by (simp add: sample_probe_not_HashMessage sample_probe_not_FortuneReqMessage
      handleRequest_probe sample_Int63_222)

text \<open>
  Claim C5 asks that every datagram that does not decode as a HashMessage is answered with
  a fresh token. The store and the answer are as the claim says (\<open>probe_issues_token\<close>
  above), but the token is not fresh: the generator is seeded with the constant 222 before
  the draw (see C2), so a second probe from an address is answered with the very token the
  first probe stored for it, and leaves the authorization server's state exactly as the
  first probe left it. The restart gives the client the challenge it already had.
\<close>

theorem probe_token_not_fresh:
  assumes probe1: "json_Unmarshal_HashMessage lib msg1 = None"
      and probe2: "json_Unmarshal_HashMessage lib msg2 = None"
      and first: "handleRequest lib msg1 record rpcClient1 fs secret cAddr = Inr (out1, record1, fs1)"
  shows "\<exists>token.
           out1 = [WriteToUDP (NonceReply \<lparr>Nonce = token\<rparr>) cAddr]
         \<and> records_m record1 cAddr = Some token
         \<and> handleRequest lib msg2 record1 rpcClient2 fs1 secret cAddr
             = Inr ([WriteToUDP (NonceReply \<lparr>Nonce = token\<rparr>) cAddr], record1, fs1)"
proof -
  define t where "t = fst (rand_Int63 lib (rand_Seed lib 222))"
  define g where "g = snd (rand_Int63 lib (rand_Seed lib 222))"
  from handleRequest_probe [OF probe1, of "record" rpcClient1 fs secret cAddr] first
  have out1: "out1 = [WriteToUDP (NonceReply \<lparr>Nonce = t\<rparr>) cAddr]"
    and record1: "record1 = record\<lparr>records_m := (records_m record)(cAddr \<mapsto> t), aserver_rand := g\<rparr>"
    and fs1: "fs1 = fs"
    by (simp_all add: t_def g_def)
  from record1 have stored: "records_m record1 cAddr = Some t"
    by simp
  from record1 have same: "record1\<lparr>records_m := (records_m record1)(cAddr \<mapsto> t), aserver_rand := g\<rparr>
      = record1"
    by simp
  from handleRequest_probe [OF probe2, of record1 rpcClient2 fs1 secret cAddr]
  have "handleRequest lib msg2 record1 rpcClient2 fs1 secret cAddr
      = Inr ([WriteToUDP (NonceReply \<lparr>Nonce = t\<rparr>) cAddr], record1, fs1)"
    unfolding t_def [symmetric] g_def [symmetric] by (simp only: same)
  with out1 stored show ?thesis
    by blast
qed

theorem probe_token_not_fresh_witness:
  "json_Unmarshal_HashMessage sample_stdlib client_probe = None
   \<and> handleRequest sample_stdlib client_probe (aserver_start sample_stdlib) CallCompletes
        (fserver_start sample_stdlib ''127.0.0.1:9090'') 1984 ''127.0.0.1:2020''
      = Inr ([WriteToUDP (NonceReply \<lparr>Nonce = 3105015096096311893\<rparr>) ''127.0.0.1:2020''],
             \<lparr>records_m = [''127.0.0.1:2020'' \<mapsto> 3105015096096311893],
              aserver_rand = 12328387132951087701\<rparr>,
             fserver_start sample_stdlib ''127.0.0.1:9090'')
   \<and> handleRequest sample_stdlib client_probe
        \<lparr>records_m = [''127.0.0.1:2020'' \<mapsto> 3105015096096311893],
         aserver_rand = 12328387132951087701\<rparr>
        CallCompletes (fserver_start sample_stdlib ''127.0.0.1:9090'') 1984 ''127.0.0.1:2020''
      = Inr ([WriteToUDP (NonceReply \<lparr>Nonce = 3105015096096311893\<rparr>) ''127.0.0.1:2020''],
             \<lparr>records_m = [''127.0.0.1:2020'' \<mapsto> 3105015096096311893],
              aserver_rand = 12328387132951087701\<rparr>,
             fserver_start sample_stdlib ''127.0.0.1:9090'')"
proof -
  note probe = sample_probe_not_HashMessage
  have first: "handleRequest sample_stdlib client_probe (aserver_start sample_stdlib) CallCompletes
        (fserver_start sample_stdlib ''127.0.0.1:9090'') 1984 ''127.0.0.1:2020''
      = Inr ([WriteToUDP (NonceReply \<lparr>Nonce = 3105015096096311893\<rparr>) ''127.0.0.1:2020''],
             \<lparr>records_m = [''127.0.0.1:2020'' \<mapsto> 3105015096096311893],
              aserver_rand = 12328387132951087701\<rparr>,
             fserver_start sample_stdlib ''127.0.0.1:9090'')"
    by (simp add: handleRequest_probe [OF probe] sample_Int63_222 aserver_start_def)
  from probe_token_not_fresh [OF probe probe first, of CallCompletes]
  have second: "handleRequest sample_stdlib client_probe
        \<lparr>records_m = [''127.0.0.1:2020'' \<mapsto> 3105015096096311893],
         aserver_rand = 12328387132951087701\<rparr>
        CallCompletes (fserver_start sample_stdlib ''127.0.0.1:9090'') 1984 ''127.0.0.1:2020''
      = Inr ([WriteToUDP (NonceReply \<lparr>Nonce = 3105015096096311893\<rparr>) ''127.0.0.1:2020''],
             \<lparr>records_m = [''127.0.0.1:2020'' \<mapsto> 3105015096096311893],
              aserver_rand = 12328387132951087701\<rparr>,
             fserver_start sample_stdlib ''127.0.0.1:9090'')"
    by auto
  from probe first second show ?thesis
    by (intro conjI)
qed

text \<open>
  Claim C6. For a datagram that decodes as a FortuneReqMessage, \<open>fortune\<close> answers
  ErrMessage "unknown remote client address" when the sender's address has no entry in the
  fortune server's map, ErrMessage "incorrect fortune nonce" when it has one and the nonce
  presented differs from it, and FortuneMessage with exactly the configured fortune string
  when the nonce presented equals the stored one.
\<close>

theorem fortune_dispatch:
  assumes "json_Unmarshal_FortuneReqMessage lib msg = Some fortuneReq"
  shows "(fortune_m fortuneServerRPC cAddr = None \<longrightarrow>
            fortune lib msg fortuneServerRPC fortuneString cAddr =
              [WriteToUDP (ErrReply \<lparr>Error = ''unknown remote client address''\<rparr>) cAddr])
       \<and> (\<forall>validNonce. fortune_m fortuneServerRPC cAddr = Some validNonce
              \<and> FortuneNonce_req fortuneReq \<noteq> validNonce \<longrightarrow>
            fortune lib msg fortuneServerRPC fortuneString cAddr =
              [WriteToUDP (ErrReply \<lparr>Error = ''incorrect fortune nonce''\<rparr>) cAddr])
       \<and> (fortune_m fortuneServerRPC cAddr = Some (FortuneNonce_req fortuneReq) \<longrightarrow>
            fortune lib msg fortuneServerRPC fortuneString cAddr =
              [WriteToUDP (FortuneReply \<lparr>Fortune = fortuneString\<rparr>) cAddr])"
  using assms by (simp add: fortune_def)

theorem fortune_dispatch_witness:
  "json_Unmarshal_FortuneReqMessage sample_stdlib
       (bytes_of ''{\"FortuneNonce\":521404863073232549}'')
     = Some \<lparr>FortuneNonce_req = 521404863073232549\<rparr>
   \<and> fortune sample_stdlib (bytes_of ''{\"FortuneNonce\":521404863073232549}'')
        (fserver_start sample_stdlib ''127.0.0.1:9090'') ''seize the day'' ''127.0.0.1:2020''
      = [WriteToUDP (ErrReply \<lparr>Error = ''unknown remote client address''\<rparr>) ''127.0.0.1:2020'']
   \<and> fortune sample_stdlib (bytes_of ''{\"FortuneNonce\":521404863073232549}'')
        \<lparr>fortune_m = [''127.0.0.1:2020'' \<mapsto> 7], server = ''127.0.0.1:9090'', fserver_rand = 0\<rparr>
        ''seize the day'' ''127.0.0.1:2020''
      = [WriteToUDP (ErrReply \<lparr>Error = ''incorrect fortune nonce''\<rparr>) ''127.0.0.1:2020'']
   \<and> fortune sample_stdlib (bytes_of ''{\"FortuneNonce\":521404863073232549}'')
        \<lparr>fortune_m = [''127.0.0.1:2020'' \<mapsto> 521404863073232549], server = ''127.0.0.1:9090'',
         fserver_rand = 0\<rparr>
        ''seize the day'' ''127.0.0.1:2020''
      = [WriteToUDP (FortuneReply \<lparr>Fortune = ''seize the day''\<rparr>) ''127.0.0.1:2020'']"
proof -
  note req = sample_request_datagram
  have unknown: "fortune sample_stdlib (bytes_of ''{\"FortuneNonce\":521404863073232549}'')
        (fserver_start sample_stdlib ''127.0.0.1:9090'') ''seize the day'' ''127.0.0.1:2020''
      = [WriteToUDP (ErrReply \<lparr>Error = ''unknown remote client address''\<rparr>) ''127.0.0.1:2020'']"
    using fortune_dispatch [OF req, of "fserver_start sample_stdlib ''127.0.0.1:9090''"
        "''127.0.0.1:2020''" "''seize the day''"]
    by (simp add: fserver_start_def)
  have wrong: "fortune sample_stdlib (bytes_of ''{\"FortuneNonce\":521404863073232549}'')
        \<lparr>fortune_m = [''127.0.0.1:2020'' \<mapsto> 7], server = ''127.0.0.1:9090'', fserver_rand = 0\<rparr>
        ''seize the day'' ''127.0.0.1:2020''
      = [WriteToUDP (ErrReply \<lparr>Error = ''incorrect fortune nonce''\<rparr>) ''127.0.0.1:2020'']"
    using fortune_dispatch [OF req,
        of "\<lparr>fortune_m = [''127.0.0.1:2020'' \<mapsto> 7], server = ''127.0.0.1:9090'', fserver_rand = 0\<rparr>"
        "''127.0.0.1:2020''" "''seize the day''"]
    by simp
  have right: "fortune sample_stdlib (bytes_of ''{\"FortuneNonce\":521404863073232549}'')
        \<lparr>fortune_m = [''127.0.0.1:2020'' \<mapsto> 521404863073232549], server = ''127.0.0.1:9090'',
         fserver_rand = 0\<rparr>
        ''seize the day'' ''127.0.0.1:2020''
      = [WriteToUDP (FortuneReply \<lparr>Fortune = ''seize the day''\<rparr>) ''127.0.0.1:2020'']"
    using fortune_dispatch [OF req,
        of "\<lparr>fortune_m = [''127.0.0.1:2020'' \<mapsto> 521404863073232549], server = ''127.0.0.1:9090'',
          fserver_rand = 0\<rparr>"
        "''127.0.0.1:2020''" "''seize the day''"]
    by simp
  from req unknown wrong right show ?thesis
    by (intro conjI)
qed

text \<open>
  Claim C7. A datagram that decodes as a HashMessage, from an address with no entry in the
  authorization server's map, is answered with the one datagram
  ErrMessage "unknown remote client address"; no RPC call is made, and neither server's
  state changes.
\<close>

theorem hash_from_unknown_address:
  assumes "json_Unmarshal_HashMessage lib msg = Some hash"
      and "records_m record cAddr = None"
  shows "handleRequest lib msg record rpcClient fs secret cAddr =
           Inr ([WriteToUDP (ErrReply \<lparr>Error = ''unknown remote client address''\<rparr>) cAddr],
                record, fs)"
  using assms by (rule handleRequest_unknown)

theorem hash_from_unknown_address_witness:
  "json_Unmarshal_HashMessage sample_stdlib
       (bytes_of ''{\"Hash\":\"28496a8baccdee0f30517293b4d5f617\"}'')
     = Some \<lparr>Hash = ''28496a8baccdee0f30517293b4d5f617''\<rparr>
   \<and> records_m (aserver_start sample_stdlib) ''127.0.0.1:2020'' = None
   \<and> handleRequest sample_stdlib (bytes_of ''{\"Hash\":\"28496a8baccdee0f30517293b4d5f617\"}'')
        (aserver_start sample_stdlib) CallCompletes
        (fserver_start sample_stdlib ''127.0.0.1:9090'') 1984 ''127.0.0.1:2020''
      = Inr ([WriteToUDP (ErrReply \<lparr>Error = ''unknown remote client address''\<rparr>)
                ''127.0.0.1:2020''],
             aserver_start sample_stdlib, fserver_start sample_stdlib ''127.0.0.1:9090'')"
proof -
  have absent: "records_m (aserver_start sample_stdlib) ''127.0.0.1:2020'' = None"
    by (simp add: aserver_start_def)
  from hash_from_unknown_address [OF sample_hash_datagram absent]
  show ?thesis
    using sample_hash_datagram absent by simp
qed

text \<open>
  Claim C8 asks that every call of \<open>GetFortuneInfo\<close> stores and returns a fresh random
  token. The store and the returned message are as the claim says (\<open>GetFortuneInfo_grant\<close>
  above), but the token is neither fresh nor random: the generator is seeded with the
  constant 110 before the draw (see C2), so the call that follows any call, for whatever
  client address, returns the same FortuneInfoMessage and stores the token that is already
  in the map for the earlier client.
\<close>

theorem grant_token_not_fresh:
  assumes first: "GetFortuneInfo lib clientAddr1 this = (err1, fInfoMsg1, this1)"
  shows "fortune_m this1 clientAddr1 = Some (FortuneNonce fInfoMsg1)
       \<and> GetFortuneInfo lib clientAddr2 this1
           = (None, fInfoMsg1,
              this1\<lparr>fortune_m := (fortune_m this1)(clientAddr2 \<mapsto> FortuneNonce fInfoMsg1)\<rparr>)"
proof -
  define t where "t = fst (rand_Int63 lib (rand_Seed lib 110))"
  define g where "g = snd (rand_Int63 lib (rand_Seed lib 110))"
  from first have info: "fInfoMsg1 = \<lparr>FortuneServer = server this, FortuneNonce = t\<rparr>"
    and this1: "this1 = this\<lparr>fortune_m := (fortune_m this)(clientAddr1 \<mapsto> t), fserver_rand := g\<rparr>"
    by (simp_all add: GetFortuneInfo_eq t_def g_def)
  from this1 have stored: "fortune_m this1 clientAddr1 = Some (FortuneNonce fInfoMsg1)"
    by (simp add: info)
  have "GetFortuneInfo lib clientAddr2 this1
      = (None, \<lparr>FortuneServer = server this1, FortuneNonce = t\<rparr>,
         this1\<lparr>fortune_m := (fortune_m this1)(clientAddr2 \<mapsto> t), fserver_rand := g\<rparr>)"
    unfolding t_def g_def by (rule GetFortuneInfo_eq)
  also have "\<lparr>FortuneServer = server this1, FortuneNonce = t\<rparr> = fInfoMsg1"
    by (simp add: info this1)
  also have "this1\<lparr>fortune_m := (fortune_m this1)(clientAddr2 \<mapsto> t), fserver_rand := g\<rparr>
      = this1\<lparr>fortune_m := (fortune_m this1)(clientAddr2 \<mapsto> FortuneNonce fInfoMsg1)\<rparr>"
    by (simp add: info this1)
  finally show ?thesis
    using stored by simp
qed

theorem grant_token_not_fresh_witness:
  "GetFortuneInfo sample_stdlib ''127.0.0.1:2020'' (fserver_start sample_stdlib ''127.0.0.1:9090'')
     = (None,
        \<lparr>FortuneServer = ''127.0.0.1:9090'', FortuneNonce = 521404863073232549\<rparr>,
        \<lparr>fortune_m = [''127.0.0.1:2020'' \<mapsto> 521404863073232549], server = ''127.0.0.1:9090'',
         fserver_rand = 521404863073232549\<rparr>)
   \<and> GetFortuneInfo sample_stdlib ''127.0.0.1:2021''
        \<lparr>fortune_m = [''127.0.0.1:2020'' \<mapsto> 521404863073232549], server = ''127.0.0.1:9090'',
         fserver_rand = 521404863073232549\<rparr>
     = (None,
        \<lparr>FortuneServer = ''127.0.0.1:9090'', FortuneNonce = 521404863073232549\<rparr>,
        \<lparr>fortune_m = [''127.0.0.1:2020'' \<mapsto> 521404863073232549,
                       ''127.0.0.1:2021'' \<mapsto> 521404863073232549],
         server = ''127.0.0.1:9090'', fserver_rand = 521404863073232549\<rparr>)"
proof -
  have first: "GetFortuneInfo sample_stdlib ''127.0.0.1:2020''
        (fserver_start sample_stdlib ''127.0.0.1:9090'')
     = (None,
        \<lparr>FortuneServer = ''127.0.0.1:9090'', FortuneNonce = 521404863073232549\<rparr>,
        \<lparr>fortune_m = [''127.0.0.1:2020'' \<mapsto> 521404863073232549], server = ''127.0.0.1:9090'',
         fserver_rand = 521404863073232549\<rparr>)"
    by (simp add: GetFortuneInfo_eq sample_Int63_110 fserver_start_def)
  from grant_token_not_fresh [OF first, of "''127.0.0.1:2021''"]
  have second: "GetFortuneInfo sample_stdlib ''127.0.0.1:2021''
        \<lparr>fortune_m = [''127.0.0.1:2020'' \<mapsto> 521404863073232549], server = ''127.0.0.1:9090'',
         fserver_rand = 521404863073232549\<rparr>
     = (None,
        \<lparr>FortuneServer = ''127.0.0.1:9090'', FortuneNonce = 521404863073232549\<rparr>,
        \<lparr>fortune_m = [''127.0.0.1:2020'' \<mapsto> 521404863073232549,
                       ''127.0.0.1:2021'' \<mapsto> 521404863073232549],
         server = ''127.0.0.1:9090'', fserver_rand = 521404863073232549\<rparr>)"
    by simp
  from first second show ?thesis
    by (intro conjI)
qed

text \<open>
  Claim C9. \<open>GetFortuneInfo\<close> returns a nil error for every client address and every
  state of the fortune server. So a call that the RPC connection completes returns a reply
  and no error, and \<open>handleRequest\<close> never ends in the branch that makes the call and then
  writes nothing to the client while the connection completes its calls.
\<close>

theorem GetFortuneInfo_never_fails:
  "fst (GetFortuneInfo lib clientAddr this) = None
   \<and> (\<exists>fInfoMsg this'. rpc_Call lib CallCompletes clientAddr this = (Some fInfoMsg, this'))
   \<and> handleRequest lib msg record CallCompletes fs secret cAddr
       \<noteq> Inr ([RPCCall ''FortuneServerRPC.GetFortuneInfo'' cAddr], record', fs')"
proof (intro conjI)
  show "fst (GetFortuneInfo lib clientAddr this) = None"
    by (simp add: GetFortuneInfo_eq)
  show "\<exists>fInfoMsg this'. rpc_Call lib CallCompletes clientAddr this = (Some fInfoMsg, this')"
    by (simp add: rpc_Call_completes)
  show "handleRequest lib msg record CallCompletes fs secret cAddr
      \<noteq> Inr ([RPCCall ''FortuneServerRPC.GetFortuneInfo'' cAddr], record', fs')"
    by (simp add: handleRequest_def Let_def rpc_Call_completes
        split: option.splits sum.splits prod.splits)
qed

theorem GetFortuneInfo_never_fails_witness:
  "handleRequest sample_stdlib (bytes_of ''{\"Hash\":\"28496a8baccdee0f30517293b4d5f617\"}'')
      \<lparr>records_m = [''127.0.0.1:2020'' \<mapsto> 3105015096096311893],
       aserver_rand = 12328387132951087701\<rparr>
      CallCompletes (fserver_start sample_stdlib ''127.0.0.1:9090'') 1984 ''127.0.0.1:2020''
    \<noteq> Inr ([RPCCall ''FortuneServerRPC.GetFortuneInfo'' ''127.0.0.1:2020''],
           \<lparr>records_m = [''127.0.0.1:2020'' \<mapsto> 3105015096096311893],
            aserver_rand = 12328387132951087701\<rparr>,
           fserver_start sample_stdlib ''127.0.0.1:9090'')
   \<and> handleRequest sample_stdlib (bytes_of ''{\"Hash\":\"28496a8baccdee0f30517293b4d5f617\"}'')
      \<lparr>records_m = [''127.0.0.1:2020'' \<mapsto> 3105015096096311893],
       aserver_rand = 12328387132951087701\<rparr>
      CallNotSent (fserver_start sample_stdlib ''127.0.0.1:9090'') 1984 ''127.0.0.1:2020''
    = Inr ([RPCCall ''FortuneServerRPC.GetFortuneInfo'' ''127.0.0.1:2020''],
           \<lparr>records_m = [''127.0.0.1:2020'' \<mapsto> 3105015096096311893],
            aserver_rand = 12328387132951087701\<rparr>,
           fserver_start sample_stdlib ''127.0.0.1:9090'')"
proof -
  let ?rec = "\<lparr>records_m = [''127.0.0.1:2020'' \<mapsto> 3105015096096311893],
                  aserver_rand = 12328387132951087701 :: uint64\<rparr>"
  let ?msg = "bytes_of ''{\"Hash\":\"28496a8baccdee0f30517293b4d5f617\"}''"
  let ?fs = "fserver_start sample_stdlib ''127.0.0.1:9090''"
  have stored: "records_m ?rec ''127.0.0.1:2020'' = Some 3105015096096311893"
    by simp
  have "length (varint (3105015096096311893 + 1984)) \<le> length ?msg"
    using varint_length_le_10 [of "3105015096096311893 + 1984"]
    by (simp only: hash_datagram_length)
  from handleRequest_checked [OF sample_hash_datagram stored this, of CallNotSent ?fs]
  have dropped: "handleRequest sample_stdlib ?msg ?rec CallNotSent ?fs 1984 ''127.0.0.1:2020''
      = Inr ([RPCCall ''FortuneServerRPC.GetFortuneInfo'' ''127.0.0.1:2020''], ?rec, ?fs)"
    by (simp add: sample_hash_1984 rpc_Call_not_sent)
  from GetFortuneInfo_never_fails [of sample_stdlib "''127.0.0.1:2020''" ?fs ?msg ?rec ?fs 1984
      "''127.0.0.1:2020''" ?rec ?fs]
  have "handleRequest sample_stdlib ?msg ?rec CallCompletes ?fs 1984 ''127.0.0.1:2020''
      \<noteq> Inr ([RPCCall ''FortuneServerRPC.GetFortuneInfo'' ''127.0.0.1:2020''], ?rec, ?fs)"
    by blast
  with dropped show ?thesis
    by blast
qed

text \<open>
  Claim C10. Handling a datagram that decodes as a HashMessage never changes the
  authorization server's own state: whenever \<open>handleRequest\<close> returns (unknown address,
  hash mismatch, handoff made or failed), the nonce map and the generator are those it
  started with. The only other outcome is the panic of \<open>PutVarint\<close> on a datagram shorter
  than the varint (\<open>empty_object_after_probe_panics\<close> above: the datagram \<^verbatim>\<open>{}\<close> from an
  address that has a nonce), which ends the process without a write to the map.
\<close>

theorem hash_handling_keeps_records:
  assumes "json_Unmarshal_HashMessage lib msg = Some hash"
  shows "handleRequest lib msg record rpcClient fs secret cAddr = Inl IndexOutOfRange
       \<or> (\<exists>out fs'. handleRequest lib msg record rpcClient fs secret cAddr
              = Inr (out, record, fs'))"
  using handleRequest_panic_or_return [of lib msg "record" rpcClient fs secret cAddr]
    handleRequest_returns_same_record [OF assms, of "record" rpcClient fs secret cAddr]
  by blast

theorem hash_handling_keeps_records_witness:
  "json_Unmarshal_HashMessage sample_stdlib
       (bytes_of ''{\"Hash\":\"28496a8baccdee0f30517293b4d5f617\"}'')
     = Some \<lparr>Hash = ''28496a8baccdee0f30517293b4d5f617''\<rparr>
   \<and> handleRequest sample_stdlib (bytes_of ''{\"Hash\":\"28496a8baccdee0f30517293b4d5f617\"}'')
        \<lparr>records_m = [''127.0.0.1:2020'' \<mapsto> 3105015096096311893],
         aserver_rand = 12328387132951087701\<rparr>
        CallCompletes (fserver_start sample_stdlib ''127.0.0.1:9090'') 1985 ''127.0.0.1:2020''
      = Inr ([WriteToUDP (ErrReply \<lparr>Error = ''unexpected hash value''\<rparr>) ''127.0.0.1:2020''],
             \<lparr>records_m = [''127.0.0.1:2020'' \<mapsto> 3105015096096311893],
              aserver_rand = 12328387132951087701\<rparr>,
             fserver_start sample_stdlib ''127.0.0.1:9090'')"
proof -
  let ?rec = "\<lparr>records_m = [''127.0.0.1:2020'' \<mapsto> 3105015096096311893],
                  aserver_rand = 12328387132951087701 :: uint64\<rparr>"
  let ?msg = "bytes_of ''{\"Hash\":\"28496a8baccdee0f30517293b4d5f617\"}''"
  let ?fs = "fserver_start sample_stdlib ''127.0.0.1:9090''"
  note sent = sample_hash_datagram
  have stored: "records_m ?rec ''127.0.0.1:2020'' = Some 3105015096096311893"
    by simp
  have "length (varint (3105015096096311893 + 1985)) \<le> length ?msg"
    using varint_length_le_10 [of "3105015096096311893 + 1985"]
    by (simp only: hash_datagram_length)
  from handleRequest_checked [OF sent stored this, of CallCompletes ?fs]
  have answer: "handleRequest sample_stdlib ?msg ?rec CallCompletes ?fs 1985 ''127.0.0.1:2020''
      = Inr ([WriteToUDP (ErrReply \<lparr>Error = ''unexpected hash value''\<rparr>) ''127.0.0.1:2020''],
             ?rec, ?fs)"
    by (simp add: sample_hash_1985)
  from hash_handling_keeps_records [OF sent, of ?rec CallCompletes ?fs 1985 "''127.0.0.1:2020''"]
  have "\<exists>out fs'. handleRequest sample_stdlib ?msg ?rec CallCompletes ?fs 1985 ''127.0.0.1:2020''
      = Inr (out, ?rec, fs')"
    by (simp add: answer)
  with sent answer show ?thesis
    by simp
qed

end
